theory Spec2Isabelle
  imports Complex_Main "HOL-Library.Sublist"
begin

section \<open>JavaScript values\<close>

text \<open>
  An optional string property of a lead: absent (\<open>undefined\<close>), \<open>null\<close>, or a string.
  Strings are lists of code units; the only non-ASCII unit in the strings modelled here is
  U+00E9.
\<close>

datatype jsstr = Undefined | Null | Str string

text \<open>JavaScript truthiness of an optional string: only a non-empty string is truthy.\<close>

fun truthyS :: "jsstr \<Rightarrow> bool" where
  "truthyS (Str s) = (s \<noteq> [])"
| "truthyS _ = False"

text \<open>The text a template literal \<open>${v}\<close> produces.\<close>

fun template :: "jsstr \<Rightarrow> string" where
  "template Undefined = ''undefined''"
| "template Null = ''null''"
| "template (Str s) = s"

fun strOf :: "jsstr \<Rightarrow> string" where
  "strOf (Str s) = s"
| "strOf _ = []"

text \<open>\<open>s.includes(p)\<close>: \<open>p\<close> occurs in \<open>s\<close> as a contiguous run.\<close>

fun js_includes :: "string \<Rightarrow> string \<Rightarrow> bool" where
  "js_includes [] p = (p = [])"
| "js_includes (c # cs) p = (prefix p (c # cs) \<or> js_includes cs p)"

text \<open>
  A value produced by \<open>JSON.parse\<close>. Property reads give \<open>None\<close> for \<open>undefined\<close>.
  Numbers are idealised as reals.
\<close>

datatype json =
    JNull
  | JBool bool
  | JNum real
  | JStr string
  | JArr "json list"
  | JObj "(string \<times> json) list"

fun getProp :: "json \<Rightarrow> string \<Rightarrow> json option" where
  "getProp (JObj kvs) k = map_of kvs k"
| "getProp _ k = None"

fun truthyJ :: "json \<Rightarrow> bool" where
  "truthyJ JNull = False"
| "truthyJ (JBool b) = b"
| "truthyJ (JNum x) = (x \<noteq> 0)"
| "truthyJ (JStr s) = (s \<noteq> [])"
| "truthyJ (JArr xs) = True"
| "truthyJ (JObj kvs) = True"

fun truthy :: "json option \<Rightarrow> bool" where
  "truthy None = False"
| "truthy (Some v) = truthyJ v"

text \<open>\<open>a || b\<close> on possibly undefined values.\<close>

definition orElse :: "json option \<Rightarrow> json option \<Rightarrow> json option" where
  "orElse a b = (if truthy a then a else b)"

text \<open>
  A JavaScript number as a lead's score holds it: a real (doubles are idealised as reals,
  without rounding or overflow) or \<open>NaN\<close>. \<open>Math.max\<close> and \<open>Math.min\<close> give \<open>NaN\<close> as soon
  as one argument is \<open>NaN\<close>, and so does addition; every comparison with \<open>NaN\<close> is false.
\<close>

datatype jsnum = Num real | NaN

fun mathMax :: "jsnum \<Rightarrow> jsnum \<Rightarrow> jsnum" where
  "mathMax (Num x) (Num y) = Num (max x y)"
| "mathMax _ _ = NaN"

fun mathMin :: "jsnum \<Rightarrow> jsnum \<Rightarrow> jsnum" where
  "mathMin (Num x) (Num y) = Num (min x y)"
| "mathMin _ _ = NaN"

fun jsPlus :: "jsnum \<Rightarrow> jsnum \<Rightarrow> jsnum" where
  "jsPlus (Num x) (Num y) = Num (x + y)"
| "jsPlus _ _ = NaN"

fun jsGe :: "jsnum \<Rightarrow> jsnum \<Rightarrow> bool" where
  "jsGe (Num x) (Num y) = (x \<ge> y)"
| "jsGe _ _ = False"

text \<open>\<open>x || 0\<close> on a number: zero and \<open>NaN\<close> are falsy.\<close>

fun orZero :: "jsnum \<Rightarrow> real" where
  "orZero (Num x) = x"
| "orZero NaN = 0"

text \<open>
  The conversion \<open>Math.max\<close> applies to an argument that is a parsed JSON value. Numbers,
  booleans and \<open>null\<close> convert as below and a plain object converts to \<open>NaN\<close>; a string or
  an array is converted through its text by the language, which the model takes as the
  parameter \<open>textToNumber\<close>.
\<close>

fun toNumber :: "(json \<Rightarrow> jsnum) \<Rightarrow> json \<Rightarrow> jsnum" where
  "toNumber textToNumber (JNum x) = Num x"
| "toNumber textToNumber (JBool b) = Num (if b then 1 else 0)"
| "toNumber textToNumber JNull = Num 0"
| "toNumber textToNumber (JObj kvs) = NaN"
| "toNumber textToNumber v = textToNumber v"

section \<open>Leads\<close>

record searchResult =
  sr_url :: jsstr
  sr_title :: jsstr
  sr_description :: jsstr

record source =
  src_url :: jsstr
  src_title :: jsstr
  scraped_successfully :: bool
  src_type :: string
  src_timestamp :: string

text \<open>
  An entry of \<open>rocketreach_updates\<close>. The source renders each as a line of text, an
  icon and \<open>old \<rightarrow> new\<close>; the model keeps which template it is and its arguments.
\<close>

datatype fieldUpdate =
    EmailUpdate jsstr jsstr
  | LinkedInUpdate string jsstr
  | CompanyUpdate jsstr jsstr
  | TitleUpdate jsstr jsstr
  | LocationUpdate jsstr jsstr

record lead =
  name :: jsstr
  title :: jsstr
  company :: jsstr
  email :: jsstr
  linkedin_url :: jsstr
  location :: jsstr
  confidence_score :: jsnum
  llm_enhanced :: bool
  is_valid_person :: "json option"
  validation_reason :: "json option"
  rocketreach_updated :: bool
  rocketreach_enriched :: bool
  rocketreach_attempted :: bool
  rocketreach_url :: jsstr
  rocketreach_update_timestamp :: jsstr
  rocketreach_updates :: "fieldUpdate list option"
  scraped_content :: "string list option"
  search_results :: "searchResult list option"
  enrichment_sources :: "json option"
  personality_analysis :: "json option"
  personality_sources :: "source list option"
  last_personality_analysis :: jsstr
  personality_metadata :: "json option"
  ready_for_outreach :: "bool option"
  enrichment :: "json option"
  last_enriched :: jsstr
  enrichment_error :: jsstr
  enrichment_attempted_at :: jsstr

section \<open>Field quality classifier (SearchNode.js)\<close>

definition lowQualityPatterns :: "string list" where
  "lowQualityPatterns =
     [''@financialservic.com.fr'', ''@example.com'', ''@test.com'', ''@placeholder.com'',
      ''noreply@'', ''support@'', ''info@'']"

definition hasLowQualityEmail :: "jsstr \<Rightarrow> bool" where
  "hasLowQualityEmail e =
     (if \<not> truthyS e then True
      else list_ex (\<lambda>pattern. js_includes (strOf e) pattern) lowQualityPatterns)"

text \<open>
  The regular expression \<open>/^https?:\/\/(www\.)?linkedin\.com\/in\//\<close> is anchored at the
  start only: it accepts exactly the strings that begin with one of four prefixes.
\<close>

definition linkedinPattern :: "string \<Rightarrow> bool" where
  "linkedinPattern s =
     (prefix ''http://linkedin.com/in/'' s \<or> prefix ''http://www.linkedin.com/in/'' s \<or>
      prefix ''https://linkedin.com/in/'' s \<or> prefix ''https://www.linkedin.com/in/'' s)"

definition hasLowQualityLinkedIn :: "jsstr \<Rightarrow> bool" where
  "hasLowQualityLinkedIn u =
     (if \<not> truthyS u then True else \<not> linkedinPattern (strOf u))"

definition genericCompanies :: "string list" where
  "genericCompanies =
     [''Financial Services Company'',
      ''Services Financiers Europ'' @ [CHR 0xE9] @ ''ens'',
      ''Group Financial Services'',
      ''Unknown Company'',
      ''Company'',
      ''Corporation'']"

definition hasLowQualityCompany :: "jsstr \<Rightarrow> bool" where
  "hasLowQualityCompany c =
     (if \<not> truthyS c then True else strOf c \<in> set genericCompanies)"

section \<open>Field upgrade decider (SearchNode.js)\<close>

definition isEmailBetter :: "jsstr \<Rightarrow> jsstr \<Rightarrow> bool" where
  "isEmailBetter newEmail currentEmail =
     (if \<not> truthyS currentEmail then True
      else if hasLowQualityEmail currentEmail \<and> \<not> hasLowQualityEmail newEmail then True
      else False)"

definition isLinkedInBetter :: "jsstr \<Rightarrow> jsstr \<Rightarrow> bool" where
  "isLinkedInBetter newLinkedIn currentLinkedIn =
     (if \<not> truthyS currentLinkedIn then True
      else if hasLowQualityLinkedIn currentLinkedIn \<and> \<not> hasLowQualityLinkedIn newLinkedIn
      then True
      else False)"

definition isCompanyBetter :: "jsstr \<Rightarrow> jsstr \<Rightarrow> bool" where
  "isCompanyBetter newCompany currentCompany =
     (if \<not> truthyS currentCompany then True
      else if hasLowQualityCompany currentCompany \<and> \<not> hasLowQualityCompany newCompany
      then True
      else False)"

text \<open>
  \<open>isTitleBetter\<close> is only ever called with a truthy new title, a string.
\<close>

definition isTitleBetter :: "jsstr \<Rightarrow> jsstr \<Rightarrow> bool" where
  "isTitleBetter newTitle currentTitle =
     (if \<not> truthyS currentTitle \<or> currentTitle = Str ''Professional'' then True
      else if length (strOf newTitle) > length (strOf currentTitle)
              \<and> \<not> js_includes (strOf newTitle) (strOf currentTitle)
      then True
      else False)"

section \<open>Lead deduplicator (SearchNode.js)\<close>

definition leadKey :: "lead \<Rightarrow> string" where
  "leadKey l = template (email l) @ ''_'' @ template (linkedin_url l)"

text \<open>
  \<open>leads.filter\<close> with the \<open>seen\<close> set threaded through: the callback runs on the
  leads in order, and every kept lead adds its key.
\<close>

fun dedupFilter :: "string set \<Rightarrow> lead list \<Rightarrow> lead list" where
  "dedupFilter seen [] = []"
| "dedupFilter seen (l # ls) =
     (if leadKey l \<in> seen then dedupFilter seen ls
      else l # dedupFilter (insert (leadKey l) seen) ls)"

definition removeDuplicateLeads :: "lead list \<Rightarrow> lead list" where
  "removeDuplicateLeads leads = dedupFilter {} leads"

text \<open>The positions whose lead is the first one bearing its key.\<close>

definition firstOfKey :: "lead list \<Rightarrow> nat \<Rightarrow> bool" where
  "firstOfKey ls i = (leadKey (ls ! i) \<notin> set (map leadKey (take i ls)))"

section \<open>Lead validator (SearchNode.js)\<close>















section \<open>LLM enhancement of leads (SearchNode.js)\<close>

text \<open>
  An entry of \<open>result.enhanced_leads\<close> as the code reads it: a numeric \<open>index\<close>, three
  optional strings and a \<open>relevance_score\<close> that is absent or any JSON value, since the
  code does not check its type; a \<open>null\<close> entry is \<open>None\<close>.
\<close>

record enhancement =
  e_index :: real
  enhanced_title :: jsstr
  enhanced_company :: jsstr
  enhanced_location :: jsstr
  relevance_score :: "json option"

datatype ereply = NoEnhancedLeads | EnhancedLeads "enhancement option list"

text \<open>
  The four guarded assignments and the \<open>llm_enhanced\<close> mark, in source order. The guard of
  the score is truthiness alone; \<open>Math.max\<close> then converts the value to a number.
\<close>

definition enhanceLead :: "(json \<Rightarrow> jsnum) \<Rightarrow> enhancement \<Rightarrow> lead \<Rightarrow> lead" where
  "enhanceLead textToNumber enh l =
     (let l1 = (if truthyS (enhanced_title enh) then l\<lparr>title := enhanced_title enh\<rparr> else l);
          l2 = (if truthyS (enhanced_company enh) then l1\<lparr>company := enhanced_company enh\<rparr>
                else l1);
          l3 = (if truthyS (enhanced_location enh) then l2\<lparr>location := enhanced_location enh\<rparr>
                else l2);
          l4 = (case relevance_score enh of
                  None \<Rightarrow> l3
                | Some score \<Rightarrow>
                    if truthyJ score
                    then l3\<lparr>confidence_score :=
                            mathMax (confidence_score l3) (toNumber textToNumber score)\<rparr>
                    else l3)
      in l4\<lparr>llm_enhanced := True\<rparr>)"

text \<open>
  A fractional index inside the range selects \<open>undefined\<close>; the first assignment to it,
  at the latest \<open>lead.llm_enhanced = true\<close>, raises a TypeError before anything is written.
\<close>

definition applyEnhancement ::
  "(json \<Rightarrow> jsnum) \<Rightarrow> lead list \<Rightarrow> enhancement option \<Rightarrow> string + lead list" where
  "applyEnhancement textToNumber batch e =
     (case e of
        None \<Rightarrow> Inl ''TypeError''
      | Some enh \<Rightarrow>
          (let leadIndex = e_index enh
           in if leadIndex \<ge> 0 \<and> leadIndex < real (length batch)
              then (if leadIndex = real (nat \<lfloor>leadIndex\<rfloor>)
                    then Inr (batch[nat \<lfloor>leadIndex\<rfloor> :=
                                enhanceLead textToNumber enh
                                  (batch ! nat \<lfloor>leadIndex\<rfloor>)])
                    else Inl ''TypeError'')
              else Inr batch))"

fun applyEnhancements ::
  "(json \<Rightarrow> jsnum) \<Rightarrow> enhancement option list \<Rightarrow> lead list \<Rightarrow> string option \<times> lead list"
  where
  "applyEnhancements textToNumber [] batch = (None, batch)"
| "applyEnhancements textToNumber (e # es) batch =
     (case applyEnhancement textToNumber batch e of
        Inl err \<Rightarrow> (Some err, batch)
      | Inr batch' \<Rightarrow> applyEnhancements textToNumber es batch')"

text \<open>
  The provider call and \<open>cleanAndParseJSON\<close> are an oracle on the batch; whatever is
  raised inside the \<open>try\<close> is logged and dropped, entries already applied stay.
\<close>

definition enhanceBatchWithLLM ::
  "(json \<Rightarrow> jsnum) \<Rightarrow> (lead list \<Rightarrow> string + ereply) \<Rightarrow> lead list \<Rightarrow> lead list" where
  "enhanceBatchWithLLM textToNumber llm batch =
     (case llm batch of
        Inl err \<Rightarrow> batch
      | Inr NoEnhancedLeads \<Rightarrow> batch
      | Inr (EnhancedLeads es) \<Rightarrow> snd (applyEnhancements textToNumber es batch))"

text \<open>
  A reply entry whose relevance score, when it has one, converts to a number.
\<close>

definition numericEntry :: "(json \<Rightarrow> jsnum) \<Rightarrow> enhancement option \<Rightarrow> bool" where
  "numericEntry textToNumber e =
     (case e of
        None \<Rightarrow> True
      | Some enh \<Rightarrow>
          (case relevance_score enh of
             None \<Rightarrow> True
           | Some score \<Rightarrow> toNumber textToNumber score \<noteq> NaN))"

section \<open>Contact-upgrade pass over stored leads (SearchNode.js)\<close>

definition missingLocation :: "lead \<Rightarrow> bool" where
  "missingLocation l = (\<not> truthyS (location l) \<or> location l = Str ''Unknown'')"

definition needsRocketReachUpdate :: "lead \<Rightarrow> bool" where
  "needsRocketReachUpdate l =
     (if rocketreach_updated l then False
      else hasLowQualityEmail (email l) \<or> hasLowQualityLinkedIn (linkedin_url l)
           \<or> hasLowQualityCompany (company l) \<or> missingLocation l)"

text \<open>
  What the pass reads of a search result and of the contact data the model extracts. The
  three providers are oracles indexed by the position of the lead in the pass; \<open>Inl\<close> is a
  raised exception.
\<close>

record rrItem =
  rr_url :: jsstr
  rr_title :: jsstr

record contactInfo =
  ci_email :: jsstr
  ci_linkedin_url :: jsstr
  ci_company :: jsstr
  ci_title :: jsstr
  ci_location :: jsstr

record rrWorld =
  rr_search :: "nat \<Rightarrow> string \<Rightarrow> string + rrItem list"
  rr_readWebsite :: "nat \<Rightarrow> string \<Rightarrow> string + string"
  rr_extract :: "nat \<Rightarrow> string \<Rightarrow> jsstr \<Rightarrow> string + contactInfo"
  rr_now :: string

definition hasUsefulInfo :: "contactInfo \<Rightarrow> bool" where
  "hasUsefulInfo ci =
     (truthyS (ci_email ci) \<or> truthyS (ci_linkedin_url ci)
      \<or> (truthyS (ci_company ci) \<and> ci_company ci \<noteq> Str ''Unknown'' \<and> ci_company ci \<noteq> Null)
      \<or> (truthyS (ci_title ci) \<and> ci_title ci \<noteq> Str ''Professional'' \<and> ci_title ci \<noteq> Null))"

definition extractRocketReachContactInfo ::
  "rrWorld \<Rightarrow> nat \<Rightarrow> jsstr \<Rightarrow> jsstr \<Rightarrow> contactInfo option" where
  "extractRocketReachContactInfo w i rocketReachUrl personName =
     (case rr_readWebsite w i (template rocketReachUrl) of
        Inl err \<Rightarrow> None
      | Inr content \<Rightarrow>
          if content = [] \<or> length content < 100 then None
          else (case rr_extract w i content personName of
                  Inl llmError \<Rightarrow> None
                | Inr ci \<Rightarrow> if hasUsefulInfo ci then Some ci else None))"

text \<open>
  The five guarded field updates in source order, each appending its entry to \<open>updates\<close>,
  then the mark, set only when at least one field was updated.
\<close>

definition applyContactInfo :: "string \<Rightarrow> jsstr \<Rightarrow> contactInfo \<Rightarrow> lead \<Rightarrow> lead" where
  "applyContactInfo now bestUrl ci l0 =
     (let (l1, u1) =
            (if truthyS (ci_email ci) \<and> isEmailBetter (ci_email ci) (email l0)
             then (l0\<lparr>email := ci_email ci\<rparr>, [EmailUpdate (email l0) (ci_email ci)])
             else (l0, []));
          (l2, u2) =
            (if truthyS (ci_linkedin_url ci)
                \<and> isLinkedInBetter (ci_linkedin_url ci) (linkedin_url l1)
             then (l1\<lparr>linkedin_url := ci_linkedin_url ci\<rparr>,
                   u1 @ [LinkedInUpdate (if truthyS (linkedin_url l1) then ''Updated'' else ''Added'')
                           (ci_linkedin_url ci)])
             else (l1, u1));
          (l3, u3) =
            (if truthyS (ci_company ci) \<and> isCompanyBetter (ci_company ci) (company l2)
             then (l2\<lparr>company := ci_company ci\<rparr>,
                   u2 @ [CompanyUpdate (company l2) (ci_company ci)])
             else (l2, u2));
          (l4, u4) =
            (if truthyS (ci_title ci) \<and> isTitleBetter (ci_title ci) (title l3)
             then (l3\<lparr>title := ci_title ci\<rparr>, u3 @ [TitleUpdate (title l3) (ci_title ci)])
             else (l3, u3));
          (l5, updates) =
            (if truthyS (ci_location ci) \<and> missingLocation l4
             then (l4\<lparr>location := ci_location ci\<rparr>,
                   u4 @ [LocationUpdate (if truthyS (location l4) then location l4 else Str ''None'')
                           (ci_location ci)])
             else (l4, u4))
      in if length updates > 0
         then l5\<lparr>rocketreach_updated := True,
                 rocketreach_url := bestUrl,
                 rocketreach_update_timestamp := Str now,
                 rocketreach_updates := Some updates\<rparr>
         else l5)"

definition isRocketReachResult :: "rrItem \<Rightarrow> bool" where
  "isRocketReachResult r =
     (truthyS (rr_url r) \<and> js_includes (strOf (rr_url r)) ''rocketreach.co'')"

text \<open>
  The body of the loop for one lead. Every branch that updates nothing (the \<open>catch\<close>, no
  RocketReach result, no contact data) only logs and counts.
\<close>

definition updateLeadWithRocketReach :: "rrWorld \<Rightarrow> nat \<Rightarrow> lead \<Rightarrow> lead" where
  "updateLeadWithRocketReach w i l =
     (case rr_search w i (template (name l) @ '' rocket reach'') of
        Inl err \<Rightarrow> l
      | Inr searchResults \<Rightarrow>
          (case filter isRocketReachResult searchResults of
             [] \<Rightarrow> l
           | bestResult # rest \<Rightarrow>
               (case extractRocketReachContactInfo w i (rr_url bestResult) (name l) of
                  None \<Rightarrow> l
                | Some ci \<Rightarrow> applyContactInfo (rr_now w) (rr_url bestResult) ci l)))"

text \<open>
  \<open>leadsToUpdate\<close> holds the selected lead objects themselves, so the loop writes into
  \<open>existingLeads\<close>; the model keeps their positions.
\<close>

definition leadsToUpdate :: "lead list \<Rightarrow> nat list" where
  "leadsToUpdate existingLeads =
     filter (\<lambda>k. needsRocketReachUpdate (existingLeads ! k)) [0..<length existingLeads]"

fun updateLoop :: "rrWorld \<Rightarrow> nat \<Rightarrow> nat list \<Rightarrow> lead list \<Rightarrow> lead list" where
  "updateLoop w i [] leads = leads"
| "updateLoop w i (k # ks) leads =
     updateLoop w (i + 1) ks (leads[k := updateLeadWithRocketReach w i (leads ! k)])"

definition updateExistingLeadsWithRocketReach :: "rrWorld \<Rightarrow> lead list \<Rightarrow> lead list" where
  "updateExistingLeadsWithRocketReach w existingLeads =
     updateLoop w 0 (leadsToUpdate existingLeads) existingLeads"

section \<open>Additional-info enrichment (llm-enricher.js)\<close>

text \<open>
  Steps 1 to 3 of \<open>enrichLeadWithAdditionalInfo\<close> (search, reading pages, extraction)
  are the oracle \<open>gather\<close>: it yields the collected \<open>enrichmentData\<close> or the message of the
  exception that ends the \<open>try\<close>. Step 4 and the \<open>catch\<close> are as in the source.
\<close>

definition enrichLeadWithAdditionalInfo ::
  "(lead \<Rightarrow> string + json) \<Rightarrow> string \<Rightarrow> lead \<Rightarrow> lead" where
  "enrichLeadWithAdditionalInfo gather now l =
     (case gather l of
        Inr enrichmentData \<Rightarrow>
          l\<lparr>enrichment := Some enrichmentData,
            confidence_score := mathMin (Num 1.0) (jsPlus (confidence_score l) (Num 0.1)),
            last_enriched := Str now\<rparr>
      | Inl message \<Rightarrow>
          l\<lparr>enrichment_error := Str message, enrichment_attempted_at := Str now\<rparr>)"

section \<open>Enrichment (EnrichNode.js)\<close>

text \<open>
  The providers of the enrichment node. Each reply may depend on every call made so far,
  so a provider receives the trace of earlier calls; \<open>Inl\<close> is the message of a raised
  exception. \<open>jina_search\<close> and \<open>jina_readWebsite\<close> are the methods of \<open>JinaSearchAPI\<close>,
  \<open>axios_get\<close> is the direct reader request with its conversion of the body to a string,
  \<open>openai_complete\<close> yields \<open>response.choices[0].message.content\<close>. \<open>json_parse\<close> is
  \<open>JSON.parse\<close>, \<open>None\<close> for a SyntaxError. \<open>stamp\<close> is the text of
  \<open>${index}-${Date.now()}\<close>, \<open>clock_now\<close> the text of \<open>new Date().toISOString()\<close>.
  \<open>substring_error\<close> is the message the engine gives the TypeError of calling
  \<open>substring\<close> on \<open>null\<close> or on \<open>undefined\<close>.
\<close>

datatype call = SearchCall string | ReadCall string | HttpGetCall string | CompleteCall string

record jinaItem =
  ji_linkedin_url :: jsstr
  ji_name :: jsstr
  ji_title :: jsstr
  ji_raw_data :: jsstr
  ji_notes :: jsstr
  ji_company :: jsstr

record enrichWorld =
  jina_search :: "call list \<Rightarrow> string \<Rightarrow> string + jinaItem list"
  jina_readWebsite :: "call list \<Rightarrow> string \<Rightarrow> string + string"
  axios_get :: "call list \<Rightarrow> string \<Rightarrow> string + string"
  openai_complete :: "call list \<Rightarrow> string \<Rightarrow> string + jsstr"
  json_parse :: "string \<Rightarrow> json option"
  stamp :: "nat \<Rightarrow> string"
  clock_now :: string
  substring_error :: "jsstr \<Rightarrow> string"

subsection \<open>searchPersonWithJina\<close>

definition firstTruthy :: "jsstr list \<Rightarrow> jsstr \<Rightarrow> jsstr" where
  "firstTruthy candidates fallback =
     (case filter truthyS candidates of [] \<Rightarrow> fallback | v # rest \<Rightarrow> v)"

definition formatResult :: "enrichWorld \<Rightarrow> jsstr \<Rightarrow> nat \<times> jinaItem \<Rightarrow> searchResult" where
  "formatResult w personName ir =
     (case ir of (index, result) \<Rightarrow>
        \<lparr> sr_url = firstTruthy [ji_linkedin_url result]
                     (Str (''https://search-result-'' @ stamp w index)),
          sr_title = Str (template (firstTruthy [ji_name result] personName) @ '' - ''
                          @ template (firstTruthy [ji_title result] (Str ''Professional''))),
          sr_description = firstTruthy [ji_raw_data result, ji_notes result, ji_company result]
                             (Str ''Professional profile'') \<rparr>)"

definition validResult :: "searchResult \<Rightarrow> bool" where
  "validResult r =
     (truthyS (sr_url r) \<and> prefix ''http'' (strOf (sr_url r))
      \<and> \<not> js_includes (strOf (sr_url r)) ''search-result-'')"

definition searchApproaches :: "jsstr \<Rightarrow> jsstr \<Rightarrow> string list" where
  \<open>searchApproaches personName personCompany =
     [template personName @ '' '' @ template personCompany,
      template personName @ '' LinkedIn'',
      ''"'' @ template personName @ ''" '' @ template personCompany,
      template personName]\<close>

fun trySearchApproaches ::
  "enrichWorld \<Rightarrow> jsstr \<Rightarrow> string list \<Rightarrow> call list \<Rightarrow> searchResult list \<times> call list" where
  "trySearchApproaches w personName [] tr = ([], tr)"
| "trySearchApproaches w personName (searchQuery # rest) tr =
     (case jina_search w tr searchQuery of
        Inl searchError \<Rightarrow> trySearchApproaches w personName rest (tr @ [SearchCall searchQuery])
      | Inr searchResults \<Rightarrow>
          (let validResults =
                 filter validResult
                   (map (formatResult w personName) (enumerate 0 searchResults))
           in if length searchResults > 0 \<and> length validResults > 0
              then (validResults, tr @ [SearchCall searchQuery])
              else trySearchApproaches w personName rest (tr @ [SearchCall searchQuery])))"

definition searchPersonWithJina ::
  "enrichWorld \<Rightarrow> jsstr \<Rightarrow> jsstr \<Rightarrow> call list \<Rightarrow> searchResult list \<times> call list" where
  "searchPersonWithJina w personName personCompany tr =
     trySearchApproaches w personName (searchApproaches personName personCompany) tr"

subsection \<open>getWebsiteContent\<close>

definition getWebsiteContent :: "enrichWorld \<Rightarrow> string \<Rightarrow> call list \<Rightarrow> string \<times> call list" where
  "getWebsiteContent w url tr =
     (case jina_readWebsite w tr url of
        Inl err \<Rightarrow> ([], tr @ [ReadCall url])
      | Inr content \<Rightarrow>
          if length content > 0 then (content, tr @ [ReadCall url])
          else (case axios_get w (tr @ [ReadCall url]) url of
                  Inl err \<Rightarrow> ([], tr @ [ReadCall url, HttpGetCall url])
                | Inr body \<Rightarrow> (body, tr @ [ReadCall url, HttpGetCall url])))"

subsection \<open>generatePersonalitySummary\<close>

fun joinWith :: "string \<Rightarrow> string list \<Rightarrow> string" where
  "joinWith sep [] = []"
| "joinWith sep [x] = x"
| "joinWith sep (x # y # ys) = x @ sep @ joinWith sep (y # ys)"

definition contentSeparator :: string where
  "contentSeparator = [CHR 10, CHR 10] @ ''---'' @ [CHR 10, CHR 10]"

definition maxLength :: nat where
  "maxLength = 90000"

definition truncationMarker :: string where
  "truncationMarker = [CHR 10, CHR 10] @ ''...[Content truncated to fit context limits]''"

definition combineContent :: "string list \<Rightarrow> string" where
  "combineContent websiteContents =
     (let combinedContent = joinWith contentSeparator websiteContents
      in if length combinedContent > maxLength
         then take maxLength combinedContent @ truncationMarker
         else combinedContent)"

definition promptSchema :: "string list" where
  \<open>promptSchema =
     [''{'',
      ''  "current_projects": ["specific current initiatives they're leading or involved in"],'',
      ''  "recent_developments": ["recent appointments, achievements, company changes, or news about them"],'',
      ''  "strategic_priorities": ["current business priorities or challenges they've mentioned publicly"],'',
      ''  "industry_involvement": ["recent speaking engagements, publications, interviews, or public statements"],'',
      ''  "company_context": ["recent company performance, changes, or initiatives they're driving"],'',
      ''  "competitive_intelligence": ["specific insights about their role, responsibilities, or current focus areas"],'',
      ''  "outreach_angles": ["specific conversation starters or topics that would resonate based on recent activities"],'',
      ''  "recent_quotes_or_statements": ["any specific quotes, opinions, or positions they've taken recently"],'',
      ''  "summary": "2-3 sentences focusing on their current role, recent activities, and what they're focused on right now",'',
      ''  "intelligence_quality": "high/medium/low based on how specific and recent the information is"'',
      ''}'']\<close>

text \<open>The lines of the prompt template before the content.\<close>

definition promptInstructions :: "string \<Rightarrow> string list" where
  \<open>promptInstructions personName =
     [''Extract competitive intelligence and actionable insights about '' @ personName
        @ '' from the web content below. Focus on SPECIFIC, RECENT, and ACTIONABLE information that would give someone an edge in business outreach. Return ONLY a JSON object:'',
      ''''] @ promptSchema @
     ['''',
      ''Extract ONLY specific, factual information from the content. Avoid generic traits like "strategic" or "innovative". Focus on what they're actually doing, saying, or working on right now.'',
      '''',
      ''Web content about '' @ personName @ '':'']\<close>

definition summaryPrompt :: "string \<Rightarrow> string \<Rightarrow> string" where
  "summaryPrompt personName combinedContent =
     joinWith [CHR 10] (promptInstructions personName @ [combinedContent])"

fun orDefault :: "json option \<Rightarrow> json \<Rightarrow> json" where
  "orDefault None d = d"
| "orDefault (Some v) d = (if truthyJ v then v else d)"

definition categoryKeys :: "string list" where
  "categoryKeys =
     [''current_projects'', ''recent_developments'', ''strategic_priorities'',
      ''industry_involvement'', ''company_context'', ''competitive_intelligence'',
      ''outreach_angles'', ''recent_quotes_or_statements'']"

text \<open>The placeholder each category gets when the parsed reply lacks it.\<close>

definition categoryPlaceholder :: "string \<Rightarrow> json" where
  "categoryPlaceholder k =
     (if k = ''current_projects'' then JArr [JStr ''No specific current projects identified'']
      else if k = ''recent_developments'' then JArr [JStr ''No recent developments found'']
      else if k = ''strategic_priorities''
        then JArr [JStr ''No specific strategic priorities identified'']
      else if k = ''industry_involvement'' then JArr [JStr ''No recent industry involvement found'']
      else if k = ''company_context'' then JArr [JStr ''No specific company context available'']
      else if k = ''competitive_intelligence''
        then JArr [JStr ''Limited competitive intelligence available'']
      else if k = ''outreach_angles'' then JArr [JStr ''Standard industry discussion topics'']
      else JArr [JStr ''No recent quotes or statements found''])"

definition structuredAnalysis :: "json \<Rightarrow> string \<Rightarrow> nat \<Rightarrow> json" where
  "structuredAnalysis analysis generatedAt contentSources =
     JObj
       [(''current_projects'', orDefault (getProp analysis ''current_projects'')
           (JArr [JStr ''No specific current projects identified''])),
        (''recent_developments'', orDefault (getProp analysis ''recent_developments'')
           (JArr [JStr ''No recent developments found''])),
        (''strategic_priorities'', orDefault (getProp analysis ''strategic_priorities'')
           (JArr [JStr ''No specific strategic priorities identified''])),
        (''industry_involvement'', orDefault (getProp analysis ''industry_involvement'')
           (JArr [JStr ''No recent industry involvement found''])),
        (''company_context'', orDefault (getProp analysis ''company_context'')
           (JArr [JStr ''No specific company context available''])),
        (''competitive_intelligence'', orDefault (getProp analysis ''competitive_intelligence'')
           (JArr [JStr ''Limited competitive intelligence available''])),
        (''outreach_angles'', orDefault (getProp analysis ''outreach_angles'')
           (JArr [JStr ''Standard industry discussion topics''])),
        (''recent_quotes_or_statements'',
           orDefault (getProp analysis ''recent_quotes_or_statements'')
           (JArr [JStr ''No recent quotes or statements found''])),
        (''summary'', orDefault (getProp analysis ''summary'')
           (JStr ''Professional with limited recent public information available'')),
        (''intelligence_quality'',
           orDefault (orElse (getProp analysis ''intelligence_quality'')
                             (getProp analysis ''confidence_level''))
           (JStr ''low'')),
        (''generated_at'', JStr generatedAt),
        (''content_sources'', JNum (real contentSources)),
        (''analysis_method'', JStr ''competitive_intelligence_extraction'')]"

definition parsingErrorPlaceholder :: json where
  "parsingErrorPlaceholder = JArr [JStr ''Analysis parsing error - unable to extract information'']"

definition fallbackAnalysis :: "string \<Rightarrow> string \<Rightarrow> nat \<Rightarrow> json" where
  "fallbackAnalysis rawContent generatedAt contentSources =
     JObj
       [(''current_projects'', parsingErrorPlaceholder),
        (''recent_developments'', parsingErrorPlaceholder),
        (''strategic_priorities'', parsingErrorPlaceholder),
        (''industry_involvement'', parsingErrorPlaceholder),
        (''company_context'', parsingErrorPlaceholder),
        (''competitive_intelligence'', parsingErrorPlaceholder),
        (''outreach_angles'', JArr [JStr ''Standard professional outreach recommended'']),
        (''recent_quotes_or_statements'', parsingErrorPlaceholder),
        (''summary'', JStr ''Competitive intelligence analysis could not be completed due to technical error''),
        (''intelligence_quality'', JStr ''low''),
        (''generated_at'', JStr generatedAt),
        (''content_sources'', JNum (real contentSources)),
        (''analysis_method'', JStr ''fallback_error''),
        (''error'', JStr ''JSON parsing failed''),
        (''raw_response'', JStr (take 500 rawContent))]"

definition processingError :: "string \<Rightarrow> string \<Rightarrow> json" where
  "processingError message generatedAt =
     JObj
       [(''error'', JStr message),
        (''summary'', JStr ''Unable to extract competitive intelligence due to processing error''),
        (''intelligence_quality'', JStr ''low''),
        (''generated_at'', JStr generatedAt)]"

text \<open>
  The inner \<open>try\<close> parses and reads the properties of the parsed value; a SyntaxError and
  the TypeError of reading a property of \<open>null\<close> both reach the inner \<open>catch\<close>. That
  \<open>catch\<close> calls \<open>rawContent.substring\<close>, which itself raises a TypeError when the content
  is \<open>null\<close> or \<open>undefined\<close>, and this one reaches the outer \<open>catch\<close>.
\<close>

definition summarise :: "enrichWorld \<Rightarrow> jsstr \<Rightarrow> nat \<Rightarrow> json" where
  "summarise w rawContent contentSources =
     (case rawContent of
        Str raw \<Rightarrow>
          (case json_parse w raw of
             None \<Rightarrow> fallbackAnalysis raw (clock_now w) contentSources
           | Some JNull \<Rightarrow> fallbackAnalysis raw (clock_now w) contentSources
           | Some analysis \<Rightarrow> structuredAnalysis analysis (clock_now w) contentSources)
      | _ \<Rightarrow> processingError (substring_error w rawContent) (clock_now w))"

definition generatePersonalitySummary ::
  "enrichWorld \<Rightarrow> jsstr \<Rightarrow> string list \<Rightarrow> call list \<Rightarrow> json \<times> call list" where
  "generatePersonalitySummary w personName websiteContents tr =
     (let prompt = summaryPrompt (template personName) (combineContent websiteContents)
      in case openai_complete w tr prompt of
           Inl message \<Rightarrow> (processingError message (clock_now w), tr @ [CompleteCall prompt])
         | Inr rawContent \<Rightarrow>
             (summarise w rawContent (length websiteContents), tr @ [CompleteCall prompt]))"

subsection \<open>enrichLeadWithPersonalityAnalysis\<close>

definition propOf :: "json option \<Rightarrow> string \<Rightarrow> json option" where
  "propOf v k = (case v of None \<Rightarrow> None | Some j \<Rightarrow> getProp j k)"

text \<open>\<open>lead.personality_analysis && !lead.personality_analysis.error\<close>\<close>

definition alreadyAnalysed :: "lead \<Rightarrow> bool" where
  "alreadyAnalysed l =
     (truthy (personality_analysis l) \<and> \<not> truthy (propOf (personality_analysis l) ''error''))"

definition isLinkedIn :: "searchResult \<Rightarrow> bool" where
  "isLinkedIn r = (truthyS (sr_url r) \<and> js_includes (strOf (sr_url r)) ''linkedin.com'')"

definition isScrapeable :: "searchResult \<Rightarrow> bool" where
  "isScrapeable r =
     (truthyS (sr_url r)
      \<and> \<not> js_includes (strOf (sr_url r)) ''linkedin.com''
      \<and> \<not> js_includes (strOf (sr_url r)) ''/login''
      \<and> \<not> js_includes (strOf (sr_url r)) ''/signup''
      \<and> \<not> js_includes (strOf (sr_url r)) ''auth''
      \<and> \<not> js_includes (strOf (sr_url r)) ''sign-in'')"

definition substantial :: "string \<Rightarrow> bool" where
  "substantial content = (length content > 0 \<and> length content > 100)"

definition contentEntry :: "searchResult \<Rightarrow> string \<Rightarrow> string" where
  "contentEntry website content =
     (let truncatedContent =
            (if length content > 50000 then take 50000 content @ ''...[truncated]''
             else content)
      in ''Source: '' @ template (sr_url website) @ [CHR 10]
         @ ''Title: '' @ template (firstTruthy [sr_title website] (Str ''N/A'')) @ [CHR 10]
         @ ''Content: '' @ truncatedContent)"

text \<open>The first scraping loop visits every selected site.\<close>

fun scrapeSites ::
  "enrichWorld \<Rightarrow> searchResult list \<Rightarrow> string list \<Rightarrow> call list \<Rightarrow> string list \<times> call list" where
  "scrapeSites w [] websiteContents tr = (websiteContents, tr)"
| "scrapeSites w (website # rest) websiteContents tr =
     (case getWebsiteContent w (template (sr_url website)) tr of
        (content, tr') \<Rightarrow>
          scrapeSites w rest
            (if substantial content then websiteContents @ [contentEntry website content]
             else websiteContents)
            tr')"

text \<open>The second loop stops (\<open>break\<close>) at the first site with substantial content.\<close>

fun scrapeAdditional ::
  "enrichWorld \<Rightarrow> searchResult list \<Rightarrow> string list \<Rightarrow> call list \<Rightarrow> string list \<times> call list" where
  "scrapeAdditional w [] websiteContents tr = (websiteContents, tr)"
| "scrapeAdditional w (website # rest) websiteContents tr =
     (case getWebsiteContent w (template (sr_url website)) tr of
        (content, tr') \<Rightarrow>
          if substantial content then (websiteContents @ [contentEntry website content], tr')
          else scrapeAdditional w rest websiteContents tr')"

definition linkedinReference :: "string \<Rightarrow> searchResult \<Rightarrow> source" where
  "linkedinReference timestamp r =
     \<lparr> src_url = sr_url r, src_title = sr_title r, scraped_successfully = False,
       src_type = ''linkedin_reference'', src_timestamp = timestamp \<rparr>"

definition scrapedSource :: "string \<Rightarrow> searchResult \<Rightarrow> source" where
  "scrapedSource timestamp r =
     \<lparr> src_url = sr_url r, src_title = sr_title r, scraped_successfully = True,
       src_type = ''scraped_content'', src_timestamp = timestamp \<rparr>"

definition passSources :: "string \<Rightarrow> searchResult list \<Rightarrow> searchResult list \<Rightarrow> source list" where
  "passSources timestamp linkedinUrls websitesToScrape =
     map (linkedinReference timestamp) (take 1 linkedinUrls)
     @ map (scrapedSource timestamp) websitesToScrape"

definition noResultsLead :: "enrichWorld \<Rightarrow> lead \<Rightarrow> lead" where
  "noResultsLead w l =
     l\<lparr>personality_analysis :=
         Some (JObj [(''error'', JStr ''No search results found''),
                     (''analyzed_at'', JStr (clock_now w))])\<rparr>"

definition noContentLead ::
  "enrichWorld \<Rightarrow> searchResult list \<Rightarrow> searchResult list \<Rightarrow> lead \<Rightarrow> lead" where
  "noContentLead w linkedinUrls websitesToScrape l =
     l\<lparr>personality_analysis :=
         Some (JObj [(''error'', JStr ''No substantial content found for analysis (LinkedIn excluded)''),
                     (''analyzed_at'', JStr (clock_now w)),
                     (''analysis_method'', JStr ''failed'')]),
       personality_metadata :=
         Some (JObj [(''analysis_completed'', JBool False),
                     (''ai_analysis_success'', JBool False),
                     (''processing_timestamp'', JStr (clock_now w)),
                     (''error'', JStr ''No scrapeable non-LinkedIn content found''),
                     (''linkedin_urls_found'', JNum (real (length linkedinUrls))),
                     (''non_linkedin_sites_attempted'', JNum (real (length websitesToScrape)))]),
       ready_for_outreach := Some False\<rparr>"

text \<open>
  Step 5 of the source. When the lead came with an empty \<open>scraped_content\<close> array, the
  scraping loops pushed into that very array, so the lead's \<open>scraped_content\<close> holds the
  contents of this pass; otherwise \<open>websiteContents\<close> is a fresh array or is not written
  to. The readiness flag reads the properties \<open>error\<close> and \<open>confidence_level\<close>.
\<close>

definition enrichedLead ::
  "enrichWorld \<Rightarrow> searchResult list \<Rightarrow> searchResult list \<Rightarrow> string list \<Rightarrow> json \<Rightarrow> lead \<Rightarrow> lead"
  where
  "enrichedLead w linkedinUrls websitesToScrape websiteContents personalityAnalysis l =
     l\<lparr>scraped_content :=
         (if scraped_content l = Some [] then Some websiteContents else scraped_content l),
       personality_analysis := Some personalityAnalysis,
       personality_sources := Some (passSources (clock_now w) linkedinUrls websitesToScrape),
       last_personality_analysis := Str (clock_now w),
       personality_metadata :=
         Some (JObj [(''analysis_completed'', JBool True),
                     (''linkedin_urls_found'', JNum (real (length linkedinUrls))),
                     (''linkedin_urls_kept_for_reference'',
                        JNum (real (min (length linkedinUrls) 1))),
                     (''non_linkedin_sites_attempted'', JNum (real (length websitesToScrape))),
                     (''content_sources_used'', JNum (real (length websiteContents))),
                     (''ai_analysis_success'',
                        JBool (\<not> truthy (getProp personalityAnalysis ''error''))),
                     (''processing_timestamp'', JStr (clock_now w)),
                     (''analysis_method'',
                        orDefault (getProp personalityAnalysis ''analysis_method'')
                          (JStr ''web_scraping_chatgpt'')),
                     (''scraping_strategy'', JStr ''exclude_linkedin'')]),
       ready_for_outreach :=
         Some (\<not> truthy (getProp personalityAnalysis ''error'')
               \<and> getProp personalityAnalysis ''confidence_level'' \<noteq> Some (JStr ''low''))\<rparr>"

text \<open>Steps 4 and 5: used once the content is collected, whichever way it was.\<close>

definition analyseContent ::
  "enrichWorld \<Rightarrow> searchResult list \<Rightarrow> searchResult list \<Rightarrow> string list \<Rightarrow> lead
     \<Rightarrow> call list \<Rightarrow> lead \<times> call list" where
  "analyseContent w linkedinUrls websitesToScrape websiteContents l tr =
     (if length websiteContents = 0
      then (noContentLead w linkedinUrls websitesToScrape l, tr)
      else (case generatePersonalitySummary w (name l) websiteContents tr of
              (personalityAnalysis, tr') \<Rightarrow>
                (enrichedLead w linkedinUrls websitesToScrape websiteContents
                   personalityAnalysis l, tr')))"

text \<open>
  The function proper. Content that the lead already carries is reused and nothing is
  searched or scraped; then all the lists of this pass are empty, and the additional loop,
  which needs more than three scrapeable results, does not run either.
\<close>

definition enrichLeadWithPersonalityAnalysis ::
  "enrichWorld \<Rightarrow> lead \<Rightarrow> call list \<Rightarrow> lead \<times> call list" where
  "enrichLeadWithPersonalityAnalysis w l tr =
     (if alreadyAnalysed l then (l, tr)
      else
        (let existing = (case scraped_content l of Some contents \<Rightarrow> contents | None \<Rightarrow> [])
         in if length existing = 0
            then
              (case searchPersonWithJina w (name l) (company l) tr of
                 (searchResults, tr1) \<Rightarrow>
                   if length searchResults = 0 then (noResultsLead w l, tr1)
                   else
                     (let linkedinUrls = filter isLinkedIn searchResults;
                          nonLinkedInWebsites = filter isScrapeable searchResults;
                          websitesToScrape = take 3 nonLinkedInWebsites
                      in case scrapeSites w websitesToScrape existing tr1 of
                           (contents1, tr2) \<Rightarrow>
                             (case (if length contents1 < 2 \<and> length nonLinkedInWebsites > 3
                                    then scrapeAdditional w
                                           (take 2 (drop 3 nonLinkedInWebsites)) contents1 tr2
                                    else (contents1, tr2)) of
                                (websiteContents, tr3) \<Rightarrow>
                                  analyseContent w linkedinUrls websitesToScrape
                                    websiteContents l tr3)))
            else analyseContent w [] [] existing l tr))"

text \<open>
  The contents the two scraping loops of a pass collect from the search results, starting
  from an empty list: the first three scrapeable results, then, when fewer than two
  contents came of them and more than three results are scrapeable, the fourth and fifth
  until one succeeds.
\<close>

definition scrapedContents ::
  "enrichWorld \<Rightarrow> searchResult list \<Rightarrow> call list \<Rightarrow> string list" where
  "scrapedContents w searchResults tr1 =
     (let nonLinkedInWebsites = filter isScrapeable searchResults
      in case scrapeSites w (take 3 nonLinkedInWebsites) [] tr1 of
           (contents1, tr2) \<Rightarrow>
             fst (if length contents1 < 2 \<and> length nonLinkedInWebsites > 3
                  then scrapeAdditional w (take 2 (drop 3 nonLinkedInWebsites)) contents1 tr2
                  else (contents1, tr2)))"

subsection \<open>Selecting and processing the leads of a run\<close>

definition needsAnalysis :: "lead \<Rightarrow> bool" where
  "needsAnalysis l =
     (\<not> truthy (personality_analysis l)
      \<or> (truthy (personality_analysis l) \<and> truthy (propOf (personality_analysis l) ''error'')))"

text \<open>
  \<open>filter\<close>, the stable \<open>sort\<close> by descending confidence score and \<open>slice(0, 10)\<close>. The
  selected elements are the lead objects of \<open>state.leads\<close>; the model selects positions.
\<close>

definition leadsToEnrich :: "lead list \<Rightarrow> nat list" where
  "leadsToEnrich leads =
     take 10 (sort_key (\<lambda>k. - orZero (confidence_score (leads ! k)))
                (filter (\<lambda>k. needsAnalysis (leads ! k)) [0..<length leads]))"

text \<open>
  The loop of \<open>enrichLeadsWithPersonalityData\<close>: \<open>Object.assign(lead, enrichedLead)\<close> writes
  the result back into the lead. The summary it logs afterwards reads the first elements of
  the analysis lists as strings and raises a TypeError when they are not; \<open>logFails\<close> says
  for which analyses that happens, and the \<open>catch\<close> then records the error on the lead.
\<close>

definition recordOutcome :: "enrichWorld \<Rightarrow> (json \<Rightarrow> string option) \<Rightarrow> lead \<Rightarrow> lead" where
  "recordOutcome w logFails l =
     (case personality_analysis l of
        None \<Rightarrow> l
      | Some analysis \<Rightarrow>
          if alreadyAnalysed l
          then (case logFails analysis of
                  None \<Rightarrow> l
                | Some message \<Rightarrow>
                    l\<lparr>personality_analysis :=
                        Some (JObj [(''error'', JStr message), (''analyzed_at'', JStr (clock_now w))])\<rparr>)
          else l)"

fun enrichLeadsWithPersonalityData ::
  "enrichWorld \<Rightarrow> (json \<Rightarrow> string option) \<Rightarrow> nat list \<Rightarrow> lead list \<Rightarrow> call list
     \<Rightarrow> lead list \<times> call list" where
  "enrichLeadsWithPersonalityData w logFails [] leads tr = (leads, tr)"
| "enrichLeadsWithPersonalityData w logFails (k # ks) leads tr =
     (case enrichLeadWithPersonalityAnalysis w (leads ! k) tr of
        (enriched, tr') \<Rightarrow>
          enrichLeadsWithPersonalityData w logFails ks
            (leads[k := recordOutcome w logFails enriched]) tr')"

text \<open>The part of \<open>run\<close> between loading and saving the state.\<close>

definition enrichRun ::
  "enrichWorld \<Rightarrow> (json \<Rightarrow> string option) \<Rightarrow> lead list \<Rightarrow> call list \<Rightarrow> lead list \<times> call list"
  where
  "enrichRun w logFails leads tr =
     (if length (leadsToEnrich leads) = 0 then (leads, tr)
      else enrichLeadsWithPersonalityData w logFails (leadsToEnrich leads) leads tr)"

section \<open>Concrete leads and providers\<close>

text \<open>A lead with every property absent, used to write concrete leads.\<close>

definition emptyLead :: lead where
  "emptyLead = \<lparr> name = Undefined, title = Undefined, company = Undefined, email = Undefined,
     linkedin_url = Undefined, location = Undefined, confidence_score = Num 0,
     llm_enhanced = False,
     is_valid_person = None, validation_reason = None, rocketreach_updated = False,
     rocketreach_enriched = False, rocketreach_attempted = False, rocketreach_url = Undefined,
     rocketreach_update_timestamp = Undefined, rocketreach_updates = None,
     scraped_content = None, search_results = None, enrichment_sources = None,
     personality_analysis = None, personality_sources = None,
     last_personality_analysis = Undefined, personality_metadata = None,
     ready_for_outreach = None, enrichment = None, last_enriched = Undefined,
     enrichment_error = Undefined, enrichment_attempted_at = Undefined \<rparr>"

text \<open>Two stored leads and provider behaviours for them.\<close>

definition janeStored :: lead where
  "janeStored = emptyLead\<lparr>name := Str ''Jane Doe'', email := Str ''jane@financialservic.com.fr'',
      linkedin_url := Str ''https://www.linkedin.com/in/janedoe'', company := Str ''Acme'',
      location := Str ''Paris''\<rparr>"

definition noProfileWorld :: rrWorld where
  "noProfileWorld =
     \<lparr> rr_search = (\<lambda>i q. Inr [\<lparr>rr_url = Str ''https://example.org/jane'', rr_title = Str ''Jane''\<rparr>]),
       rr_readWebsite = (\<lambda>i u. Inr []),
       rr_extract = (\<lambda>i c n. Inl ''unused''),
       rr_now = ''2025-01-01'' \<rparr>"

definition joeStored :: lead where
  "joeStored = emptyLead\<lparr>name := Str ''Joe Roe'', email := Str ''joe.roe@acme.com'',
      linkedin_url := Str ''https://www.linkedin.com/in/joeroe'', company := Str ''Acme'',
      location := Str ''Unknown''\<rparr>"

definition noBetterWorld :: rrWorld where
  "noBetterWorld =
     \<lparr> rr_search = (\<lambda>i q. Inr [\<lparr>rr_url = Str ''https://rocketreach.co/joe-roe'', rr_title = Str ''Joe''\<rparr>]),
       rr_readWebsite = (\<lambda>i u. Inr (replicate 120 (CHR ''x''))),
       rr_extract = (\<lambda>i c n. Inr \<lparr>ci_email = Str ''j.roe@other.org'', ci_linkedin_url = Null,
                       ci_company = Str ''Acme Corp'', ci_title = Null, ci_location = Null\<rparr>),
       rr_now = ''2025-01-01'' \<rparr>"

text \<open>Provider behaviours used in concrete runs.\<close>

definition providerDownWorld :: enrichWorld where
  "providerDownWorld =
     \<lparr> jina_search = (\<lambda>tr q. Inl ''Jina API key not configured''),
       jina_readWebsite = (\<lambda>tr u. Inl ''Jina API key not configured''),
       axios_get = (\<lambda>tr u. Inl ''timeout''),
       openai_complete = (\<lambda>tr p. Inl ''Request timed out''),
       json_parse = (\<lambda>raw. None),
       stamp = (\<lambda>i. ''0-0''),
       clock_now = ''2025-01-01T00:00:00.000Z'',
       substring_error =
         (\<lambda>v. ''Cannot read properties of '' @ template v @ '' (reading 'substring')'') \<rparr>"

definition openaiLowReply :: string where
  \<open>openaiLowReply = ''{"intelligence_quality":"low"}''\<close>

definition lowQualityWorld :: enrichWorld where
  "lowQualityWorld =
     \<lparr> jina_search = (\<lambda>tr q. Inr []),
       jina_readWebsite = (\<lambda>tr u. Inr []),
       axios_get = (\<lambda>tr u. Inr []),
       openai_complete = (\<lambda>tr p. Inr (Str openaiLowReply)),
       json_parse = (\<lambda>raw. if raw = openaiLowReply
                            then Some (JObj [(''intelligence_quality'', JStr ''low'')])
                            else None),
       stamp = (\<lambda>i. ''0-0''),
       clock_now = ''2025-01-01T00:00:00.000Z'',
       substring_error =
         (\<lambda>v. ''Cannot read properties of '' @ template v @ '' (reading 'substring')'') \<rparr>"

definition garbledWorld :: enrichWorld where
  "garbledWorld =
     \<lparr> jina_search = (\<lambda>tr q. Inr []),
       jina_readWebsite = (\<lambda>tr u. Inr []),
       axios_get = (\<lambda>tr u. Inr []),
       openai_complete = (\<lambda>tr p. Inr (Str ''Sorry, I cannot help with that.'')),
       json_parse = (\<lambda>raw. None),
       stamp = (\<lambda>i. ''0-0''),
       clock_now = ''2025-01-01T00:00:00.000Z'',
       substring_error =
         (\<lambda>v. ''Cannot read properties of '' @ template v @ '' (reading 'substring')'') \<rparr>"

text \<open>Leads used in concrete runs.\<close>

definition pendingJane :: lead where
  "pendingJane =
     emptyLead\<lparr>name := Str ''Jane Doe'', company := Str ''Acme'',
       scraped_content := Some [''Jane Doe leads the payments programme at Acme.'']\<rparr>"

definition oldSource :: source where
  "oldSource =
     \<lparr> src_url = Str ''https://acme.com/team'', src_title = Str ''Acme team'',
       scraped_successfully = True, src_type = ''scraped_content'',
       src_timestamp = ''2024-12-01T00:00:00.000Z'' \<rparr>"

definition retryJane :: lead where
  "retryJane =
     pendingJane\<lparr>personality_analysis := Some (JObj [(''error'', JStr ''JSON parsing failed'')]),
       personality_sources := Some [oldSource]\<rparr>"

definition doneJane :: lead where
  "doneJane =
     pendingJane\<lparr>personality_analysis :=
       Some (JObj [(''summary'', JStr ''Leads payments at Acme''),
                   (''intelligence_quality'', JStr ''high'')])\<rparr>"

definition newsItem :: jinaItem where
  "newsItem =
     \<lparr> ji_linkedin_url = Str ''https://news.example.com/jane-doe'', ji_name = Str ''Jane Doe'',
       ji_title = Str ''Head of Payments'', ji_raw_data = Str ''Jane Doe joins Acme'',
       ji_notes = Undefined, ji_company = Str ''Acme'' \<rparr>"

definition freshSearchWorld :: enrichWorld where
  "freshSearchWorld =
     \<lparr> jina_search = (\<lambda>tr q. Inr [newsItem]),
       jina_readWebsite = (\<lambda>tr u. Inr (replicate 120 (CHR ''x''))),
       axios_get = (\<lambda>tr u. Inr []),
       openai_complete = (\<lambda>tr p. Inr (Str openaiLowReply)),
       json_parse = (\<lambda>raw. if raw = openaiLowReply
                            then Some (JObj [(''intelligence_quality'', JStr ''low'')])
                            else None),
       stamp = (\<lambda>i. ''0-0''),
       clock_now = ''2025-01-01T00:00:00.000Z'',
       substring_error =
         (\<lambda>v. ''Cannot read properties of '' @ template v @ '' (reading 'substring')'') \<rparr>"

definition newJane :: lead where
  "newJane = emptyLead\<lparr>name := Str ''Jane Doe'', company := Str ''Acme''\<rparr>"

definition retryLead :: lead where
  "retryLead =
     emptyLead\<lparr>name := Str ''Jane Doe'', company := Str ''Acme'',
       personality_analysis := Some (JObj [(''error'', JStr ''JSON parsing failed'')]),
       personality_sources := Some [oldSource]\<rparr>"

definition newsResult :: searchResult where
  "newsResult =
     \<lparr> sr_url = Str ''https://news.example.com/jane-doe'',
       sr_title = Str ''Jane Doe - Head of Payments'',
       sr_description = Str ''Jane Doe joins Acme'' \<rparr>"





text \<open>
  A lead with score 0.5 and replies of the enhancement model for it. \<open>notANumeral\<close> is the
  conversion of texts to numbers on texts that are no numerals.
\<close>

definition notANumeral :: "json \<Rightarrow> jsnum" where
  "notANumeral v = NaN"

definition halfScoreLead :: lead where
  "halfScoreLead = emptyLead\<lparr>name := Str ''Jane Doe'', confidence_score := Num 0.5\<rparr>"

definition relevanceReply :: "json \<Rightarrow> lead list \<Rightarrow> string + ereply" where
  "relevanceReply score batch =
     Inr (EnhancedLeads [Some \<lparr>e_index = 0, enhanced_title = Str ''CFO'',
            enhanced_company = Null, enhanced_location = Undefined,
            relevance_score = Some score\<rparr>])"

text \<open>Further provider behaviours.\<close>

definition emptyReplyWorld :: enrichWorld where
  "emptyReplyWorld =
     \<lparr> jina_search = (\<lambda>tr q. Inr []),
       jina_readWebsite = (\<lambda>tr u. Inr []),
       axios_get = (\<lambda>tr u. Inr []),
       openai_complete = (\<lambda>tr p. Inr Null),
       json_parse = (\<lambda>raw. None),
       stamp = (\<lambda>i. ''0-0''),
       clock_now = ''2025-01-01T00:00:00.000Z'',
       substring_error =
         (\<lambda>v. ''Cannot read properties of '' @ template v @ '' (reading 'substring')'') \<rparr>"

definition unreadablePageWorld :: enrichWorld where
  "unreadablePageWorld =
     \<lparr> jina_search = (\<lambda>tr q. Inr [newsItem]),
       jina_readWebsite = (\<lambda>tr u. Inl ''HTTP 451''),
       axios_get = (\<lambda>tr u. Inr []),
       openai_complete = (\<lambda>tr p. Inr (Str openaiLowReply)),
       json_parse = (\<lambda>raw. None),
       stamp = (\<lambda>i. ''0-0''),
       clock_now = ''2025-01-01T00:00:00.000Z'',
       substring_error =
         (\<lambda>v. ''Cannot read properties of '' @ template v @ '' (reading 'substring')'') \<rparr>"


section \<open>Verified properties\<close>

subsection \<open>Field upgrade decider\<close>

text \<open>
  Claim C1. For each of the fields email, LinkedIn URL and company, and every candidate and
  current value: when the current value is non-empty and not low-quality, the upgrade
  decider answers false whatever the candidate is; when the current value is low-quality
  and the candidate is not, it answers true.
\<close>

theorem upgrade_monotone:
  "(truthyS cur \<and> \<not> hasLowQualityEmail cur \<longrightarrow> \<not> isEmailBetter cand cur) \<and>
   (truthyS cur \<and> \<not> hasLowQualityLinkedIn cur \<longrightarrow> \<not> isLinkedInBetter cand cur) \<and>
   (truthyS cur \<and> \<not> hasLowQualityCompany cur \<longrightarrow> \<not> isCompanyBetter cand cur) \<and>
   (hasLowQualityEmail cur \<and> \<not> hasLowQualityEmail cand \<longrightarrow> isEmailBetter cand cur) \<and>
   (hasLowQualityLinkedIn cur \<and> \<not> hasLowQualityLinkedIn cand \<longrightarrow> isLinkedInBetter cand cur) \<and>
   (hasLowQualityCompany cur \<and> \<not> hasLowQualityCompany cand \<longrightarrow> isCompanyBetter cand cur)"
  by (simp add: isEmailBetter_def isLinkedInBetter_def isCompanyBetter_def)

theorem upgrade_monotone_witness:
  "\<not> isEmailBetter (Str ''j.doe@other.org'') (Str ''jane.doe@acme.com'') \<and>
   isEmailBetter (Str ''jane.doe@acme.com'') (Str ''jane@financialservic.com.fr'') \<and>
   \<not> isLinkedInBetter (Str ''https://www.linkedin.com/in/jdoe'') (Str ''https://linkedin.com/in/janedoe'') \<and>
   isLinkedInBetter (Str ''https://linkedin.com/in/janedoe'') (Str ''https://news.example.com/article'') \<and>
   \<not> isCompanyBetter (Str ''Acme Holding'') (Str ''Acme'') \<and>
   isCompanyBetter (Str ''Acme'') (Str ''Unknown Company'')"
  using upgrade_monotone [of "Str ''jane.doe@acme.com''" "Str ''j.doe@other.org''"]
        upgrade_monotone [of "Str ''jane@financialservic.com.fr''" "Str ''jane.doe@acme.com''"]
        upgrade_monotone [of "Str ''https://linkedin.com/in/janedoe''" "Str ''https://www.linkedin.com/in/jdoe''"]
        upgrade_monotone [of "Str ''https://news.example.com/article''" "Str ''https://linkedin.com/in/janedoe''"]
        upgrade_monotone [of "Str ''Acme''" "Str ''Acme Holding''"]
        upgrade_monotone [of "Str ''Unknown Company''" "Str ''Acme''"]
  by (simp add: hasLowQualityEmail_def lowQualityPatterns_def hasLowQualityLinkedIn_def
        linkedinPattern_def hasLowQualityCompany_def genericCompanies_def)

subsection \<open>Lead deduplicator\<close>

lemma dedupFilter_subseq: "subseq (dedupFilter seen ls) ls"
  by (induction ls arbitrary: seen) auto

lemma dedupFilter_keys: "set (map leadKey (dedupFilter seen ls)) = set (map leadKey ls) - seen"
  by (induction ls arbitrary: seen) auto

lemma dedupFilter_distinct: "distinct (map leadKey (dedupFilter seen ls))"
proof (induction ls arbitrary: seen)
  case Nil
  show ?case by simp
next
  case (Cons l ls)
  have "leadKey l \<notin> set (map leadKey (dedupFilter (insert (leadKey l) seen) ls))"
    by (simp only: dedupFilter_keys) simp
  with Cons.IH show ?case by simp
qed

lemma dedupFilter_char:
  "dedupFilter seen ls =
     map ((!) ls) (filter (\<lambda>i. leadKey (ls ! i) \<notin> seen \<and> firstOfKey ls i) [0..<length ls])"
proof (induction ls arbitrary: seen)
  case Nil
  show ?case by simp
next
  case (Cons l ls)
  have upt: "[0..<length (l # ls)] = 0 # map Suc [0..<length ls]"
    by (simp add: upt_conv_Cons map_Suc_upt del: upt_Suc)
  have f0: "firstOfKey (l # ls) 0" by (simp add: firstOfKey_def)
  have fS: "firstOfKey (l # ls) (Suc i) = (leadKey (ls ! i) \<noteq> leadKey l \<and> firstOfKey ls i)" for i
    by (auto simp add: firstOfKey_def)
  show ?case
  proof (cases "leadKey l \<in> seen")
    case True
    then have eq: "(leadKey (ls ! i) \<notin> seen \<and> leadKey (ls ! i) \<noteq> leadKey l \<and> firstOfKey ls i)
        = (leadKey (ls ! i) \<notin> seen \<and> firstOfKey ls i)" for i by auto
    show ?thesis using True
      by (simp only: upt dedupFilter.simps if_True Cons.IH)
         (simp add: filter_map comp_def fS eq del: upt_Suc)
  next
    case False
    then show ?thesis
      by (simp only: upt dedupFilter.simps if_False Cons.IH)
         (simp add: filter_map comp_def fS f0 conj_ac del: upt_Suc)
  qed
qed

text \<open>
  What the deduplicator does in terms of its key text \<open>${email}_${linkedin_url}\<close>: it
  keeps exactly the leads at the positions that are the first to bear their key text, in
  their original order; the result is a subsequence of the input, no key text occurs twice
  in it, and none of the input is lost. Leads with the same email and LinkedIn URL bear the
  same key text, so \<open>[A, A', B]\<close> becomes \<open>[A, B]\<close> when \<open>B\<close> bears another one.
\<close>

lemma removeDuplicateLeads_by_key_text:
  "leadKey l = template (email l) @ ''_'' @ template (linkedin_url l) \<and>
   removeDuplicateLeads ls = map ((!) ls) (filter (firstOfKey ls) [0..<length ls]) \<and>
   subseq (removeDuplicateLeads ls) ls \<and>
   distinct (map leadKey (removeDuplicateLeads ls)) \<and>
   set (map leadKey (removeDuplicateLeads ls)) = set (map leadKey ls) \<and>
   (email a' = email a \<and> linkedin_url a' = linkedin_url a \<and> leadKey b \<noteq> leadKey a
      \<longrightarrow> removeDuplicateLeads [a, a', b] = [a, b])"
proof (intro conjI impI)
  show "leadKey l = template (email l) @ ''_'' @ template (linkedin_url l)"
    by (simp add: leadKey_def)
  show "removeDuplicateLeads ls = map ((!) ls) (filter (firstOfKey ls) [0..<length ls])"
    by (simp add: removeDuplicateLeads_def dedupFilter_char)
  show "subseq (removeDuplicateLeads ls) ls"
    by (simp only: removeDuplicateLeads_def dedupFilter_subseq)
  show "distinct (map leadKey (removeDuplicateLeads ls))"
    by (simp only: removeDuplicateLeads_def dedupFilter_distinct)
  show "set (map leadKey (removeDuplicateLeads ls)) = set (map leadKey ls)"
    by (simp only: removeDuplicateLeads_def dedupFilter_keys) simp
next
  assume "email a' = email a \<and> linkedin_url a' = linkedin_url a \<and> leadKey b \<noteq> leadKey a"
  then have "leadKey a' = leadKey a" and "leadKey b \<noteq> leadKey a"
    by (simp_all add: leadKey_def)
  then show "removeDuplicateLeads [a, a', b] = [a, b]"
    by (simp add: removeDuplicateLeads_def)
qed


subsection \<open>Lead validator\<close>













subsection \<open>Confidence score\<close>

text \<open>
  As long as every relevance score of the reply converts to a number, enhancement gives a
  lead with a numeric score a numeric score that is not smaller, the maximum of the two
  where the reply has a truthy score; additional-info enrichment gives a score in \<open>[0, 1]\<close>
  the score \<open>min(1.0, old + 0.1)\<close> when the gathering succeeds and leaves it otherwise.
\<close>

lemma enhanceLead_numeric:
  assumes "numericEntry t (Some enh)" and "confidence_score l = Num x"
  shows "\<exists>y. confidence_score (enhanceLead t enh l) = Num y \<and> x \<le> y"
proof (cases "relevance_score enh")
  case None
  with assms show ?thesis by (simp add: enhanceLead_def Let_def)
next
  case (Some v)
  with assms(1) obtain r where r: "toNumber t v = Num r"
    by (cases "toNumber t v") (simp_all add: numericEntry_def)
  with Some assms(2) show ?thesis by (simp add: enhanceLead_def Let_def)
qed

lemma enhanceLead_max:
  assumes "relevance_score enh = Some v" and "truthyJ v" and "toNumber t v = Num r"
    and "confidence_score l = Num x"
  shows "confidence_score (enhanceLead t enh l) = Num (max x r)"
  using assms by (simp add: enhanceLead_def Let_def)

lemma applyEnhancement_numeric:
  assumes "applyEnhancement t batch e = Inr batch'" and "numericEntry t e"
    and "k < length batch" and "confidence_score (batch ! k) = Num x"
  shows "length batch' = length batch \<and>
         (\<exists>y. confidence_score (batch' ! k) = Num y \<and> x \<le> y)"
proof (cases e)
  case None
  with assms(1) show ?thesis by (simp add: applyEnhancement_def)
next
  case (Some enh)
  show ?thesis
  proof (cases "batch' = batch")
    case True
    with assms(4) show ?thesis by simp
  next
    case False
    with assms(1) Some have upd:
      "batch' = batch[nat \<lfloor>e_index enh\<rfloor> := enhanceLead t enh (batch ! nat \<lfloor>e_index enh\<rfloor>)]"
      by (auto simp: applyEnhancement_def Let_def split: if_splits)
    show ?thesis
    proof (cases "k = nat \<lfloor>e_index enh\<rfloor>")
      case True
      with upd assms(2,3,4) Some enhanceLead_numeric [of t enh "batch ! k" x]
      show ?thesis by simp
    next
      case False
      with upd assms(4) show ?thesis by simp
    qed
  qed
qed

lemma applyEnhancements_numeric:
  "list_all (numericEntry t) es \<Longrightarrow> k < length batch \<Longrightarrow> confidence_score (batch ! k) = Num x \<Longrightarrow>
   length (snd (applyEnhancements t es batch)) = length batch \<and>
   (\<exists>y. confidence_score (snd (applyEnhancements t es batch) ! k) = Num y \<and> x \<le> y)"
proof (induction es arbitrary: batch x)
  case Nil
  then show ?case by simp
next
  case (Cons e es)
  show ?case
  proof (cases "applyEnhancement t batch e")
    case (Inl err)
    with Cons.prems show ?thesis by simp
  next
    case (Inr batch')
    from Cons.prems have e: "numericEntry t e" and es: "list_all (numericEntry t) es" by simp_all
    from applyEnhancement_numeric [OF Inr e Cons.prems(2,3)]
    obtain y where len: "length batch' = length batch"
      and y: "confidence_score (batch' ! k) = Num y" and xy: "x \<le> y" by blast
    from Cons.IH [OF es _ y] len Cons.prems(2)
    obtain z where "length (snd (applyEnhancements t es batch')) = length batch'"
      and "confidence_score (snd (applyEnhancements t es batch') ! k) = Num z" and "y \<le> z"
      by auto
    with Inr len xy show ?thesis by auto
  qed
qed

lemma enhanceBatchWithLLM_numeric:
  assumes "\<forall>es. llm batch = Inr (EnhancedLeads es) \<longrightarrow> list_all (numericEntry t) es"
    and "k < length batch" and "confidence_score (batch ! k) = Num x"
  shows "\<exists>y. confidence_score (enhanceBatchWithLLM t llm batch ! k) = Num y \<and> x \<le> y"
proof (cases "llm batch")
  case (Inl err)
  with assms(3) show ?thesis by (simp add: enhanceBatchWithLLM_def)
next
  case (Inr r)
  show ?thesis
  proof (cases r)
    case NoEnhancedLeads
    with Inr assms(3) show ?thesis by (simp add: enhanceBatchWithLLM_def)
  next
    case (EnhancedLeads es)
    with Inr assms(1) have "list_all (numericEntry t) es" by simp
    from applyEnhancements_numeric [OF this assms(2,3)] Inr EnhancedLeads
    show ?thesis by (simp add: enhanceBatchWithLLM_def)
  qed
qed

lemma enrichLeadWithAdditionalInfo_score:
  assumes "confidence_score l = Num x" and "0 \<le> x" and "x \<le> 1"
  shows "\<exists>y. confidence_score (enrichLeadWithAdditionalInfo gather now l) = Num y \<and> x \<le> y"
    and "gather l = Inr d \<Longrightarrow>
         confidence_score (enrichLeadWithAdditionalInfo gather now l) = Num (min 1 (x + 0.1))"
  using assms by (auto simp: enrichLeadWithAdditionalInfo_def split: sum.splits)

text \<open>
  Claim C10, evaluated on the code. The enhancement model replies with the relevance score
  \<open>"high"\<close> for a lead whose score is 0.5. The text is truthy, so the guard lets it
  through, and \<open>Math.max(0.5, "high")\<close> is \<open>NaN\<close>: the score of the lead is \<open>NaN\<close> after
  the pass, which is not greater than or equal to 0.5. On numeric replies the same call
  gives the maximum: 0.85 replaces 0.5, and 0.25 leaves it.
\<close>

theorem relevance_text_turns_score_into_nan:
  "confidence_score halfScoreLead = Num 0.5 \<and>
   confidence_score
     (enhanceBatchWithLLM notANumeral (relevanceReply (JStr ''high'')) [halfScoreLead] ! 0)
     = NaN \<and>
   \<not> jsGe NaN (Num 0.5) \<and>
   confidence_score
     (enhanceBatchWithLLM notANumeral (relevanceReply (JNum 0.85)) [halfScoreLead] ! 0)
     = Num 0.85 \<and>
   confidence_score
     (enhanceBatchWithLLM notANumeral (relevanceReply (JNum 0.25)) [halfScoreLead] ! 0)
     = Num 0.5"
  by (simp add: enhanceBatchWithLLM_def relevanceReply_def applyEnhancement_def enhanceLead_def
        halfScoreLead_def emptyLead_def notANumeral_def)

subsection \<open>Contact-upgrade pass\<close>

text \<open>
  Claim C9, evaluated on the code. When the search finds no RocketReach profile, and when
  the extracted contact data holds no field that passes the upgrade decider, the pass
  returns the stored lead exactly as it was: the contact fields are unchanged, and no mark
  of the attempt is written either, so the next pass selects the same lead again.
\<close>

theorem contact_upgrade_leaves_no_attempt_mark:
  "updateExistingLeadsWithRocketReach noProfileWorld [janeStored] = [janeStored] \<and>
   leadsToUpdate (updateExistingLeadsWithRocketReach noProfileWorld [janeStored]) = [0] \<and>
   updateExistingLeadsWithRocketReach noBetterWorld [joeStored] = [joeStored] \<and>
   leadsToUpdate (updateExistingLeadsWithRocketReach noBetterWorld [joeStored]) = [0]"
proof -
  have jane: "updateLeadWithRocketReach noProfileWorld 0 janeStored = janeStored"
    by (simp add: updateLeadWithRocketReach_def noProfileWorld_def isRocketReachResult_def)
  have janeNeeds: "needsRocketReachUpdate janeStored"
    by (simp add: needsRocketReachUpdate_def janeStored_def emptyLead_def
          hasLowQualityEmail_def lowQualityPatterns_def)
  have extracted: "extractRocketReachContactInfo noBetterWorld 0
                   (Str ''https://rocketreach.co/joe-roe'') (name joeStored)
                 = Some \<lparr>ci_email = Str ''j.roe@other.org'', ci_linkedin_url = Null,
                       ci_company = Str ''Acme Corp'', ci_title = Null, ci_location = Null\<rparr>"
    by (simp add: extractRocketReachContactInfo_def noBetterWorld_def hasUsefulInfo_def)
  have applied: "applyContactInfo ''2025-01-01'' (Str ''https://rocketreach.co/joe-roe'')
                 \<lparr>ci_email = Str ''j.roe@other.org'', ci_linkedin_url = Null,
                   ci_company = Str ''Acme Corp'', ci_title = Null, ci_location = Null\<rparr> joeStored
               = joeStored"
    by (simp add: applyContactInfo_def joeStored_def emptyLead_def isEmailBetter_def
          isCompanyBetter_def hasLowQualityEmail_def lowQualityPatterns_def
          hasLowQualityCompany_def genericCompanies_def)
  have joe: "updateLeadWithRocketReach noBetterWorld 0 joeStored = joeStored"
    using extracted applied
    by (simp add: updateLeadWithRocketReach_def isRocketReachResult_def noBetterWorld_def)
  have joeNeeds: "needsRocketReachUpdate joeStored"
    by (simp add: needsRocketReachUpdate_def joeStored_def emptyLead_def missingLocation_def)
  show ?thesis
    using jane janeNeeds joe joeNeeds
    by (simp add: updateExistingLeadsWithRocketReach_def leadsToUpdate_def)
qed

subsection \<open>Intelligence summarizer\<close>

lemma joinWith_last: "suffix y (joinWith sep (xs @ [y]))"
proof (induction xs)
  case Nil
  show ?case by simp
next
  case (Cons x xs)
  obtain z zs where "xs @ [y] = z # zs" by (cases "xs @ [y]") auto
  with Cons show ?case by (simp add: suffix_append)
qed

lemma summaryPrompt_suffix: "suffix c (summaryPrompt p c)"
  unfolding summaryPrompt_def by (rule joinWith_last)

lemma length_joinWith:
  "length (joinWith sep cs) = sum_list (map length cs) + (length cs - 1) * length sep"
  by (induction sep cs rule: joinWith.induct) simp_all

text \<open>
  Claim C5. The combined content is the source contents joined by the separator, a line
  of three dashes between blank lines. When it is longer than the budget of 90000 it is cut
  to exactly the budget and the truncation marker
  \<open>...[Content truncated to fit context limits]\<close>, after a blank line, is appended: the
  marker has 46 characters, so the content sent has 90046 and ends with the marker; content
  at or under the budget is passed unmodified. In every case the summarizer issues exactly
  one completion request, whose prompt ends with that combined content, and returns a
  result: over-long input raises nothing.
\<close>

theorem truncation_safety:
  "maxLength = 90000 \<and>
   truncationMarker = [CHR 10, CHR 10] @ ''...[Content truncated to fit context limits]'' \<and>
   length truncationMarker = 46 \<and>
   contentSeparator = [CHR 10, CHR 10] @ ''---'' @ [CHR 10, CHR 10] \<and>
   length (joinWith contentSeparator cs) = sum_list (map length cs) + (length cs - 1) * 7 \<and>
   length (combineContent cs) \<le> maxLength + length truncationMarker \<and>
   length (combineContent cs) \<le> 90046 \<and>
   (length (joinWith contentSeparator cs) > maxLength \<longrightarrow>
      combineContent cs = take maxLength (joinWith contentSeparator cs) @ truncationMarker \<and>
      length (combineContent cs) = maxLength + length truncationMarker \<and>
      suffix ([CHR 10, CHR 10] @ ''...[Content truncated to fit context limits]'')
        (combineContent cs)) \<and>
   (length (joinWith contentSeparator cs) \<le> maxLength \<longrightarrow>
      combineContent cs = joinWith contentSeparator cs) \<and>
   snd (generatePersonalitySummary w n cs tr)
     = tr @ [CompleteCall (summaryPrompt (template n) (combineContent cs))] \<and>
   suffix (combineContent cs) (summaryPrompt (template n) (combineContent cs))"
proof (intro conjI impI)
  show "maxLength = 90000" by (simp add: maxLength_def)
  show marker: "truncationMarker
                  = [CHR 10, CHR 10] @ ''...[Content truncated to fit context limits]''"
    by (simp add: truncationMarker_def)
  show len46: "length truncationMarker = 46" by (simp add: truncationMarker_def)
  show "contentSeparator = [CHR 10, CHR 10] @ ''---'' @ [CHR 10, CHR 10]"
    by (simp add: contentSeparator_def)
  have "length contentSeparator = 7" by (simp add: contentSeparator_def)
  then show "length (joinWith contentSeparator cs)
               = sum_list (map length cs) + (length cs - 1) * 7"
    by (simp add: length_joinWith)
  show bound: "length (combineContent cs) \<le> maxLength + length truncationMarker"
    by (simp add: combineContent_def Let_def)
  from bound len46 show "length (combineContent cs) \<le> 90046" by (simp add: maxLength_def)
  show "snd (generatePersonalitySummary w n cs tr)
     = tr @ [CompleteCall (summaryPrompt (template n) (combineContent cs))]"
    by (simp add: generatePersonalitySummary_def Let_def split: sum.splits)
  show "suffix (combineContent cs) (summaryPrompt (template n) (combineContent cs))"
    by (rule summaryPrompt_suffix)
next
  assume long: "length (joinWith contentSeparator cs) > maxLength"
  then show cut: "combineContent cs
                    = take maxLength (joinWith contentSeparator cs) @ truncationMarker"
    and "length (combineContent cs) = maxLength + length truncationMarker"
    by (simp_all add: combineContent_def Let_def)
  have "suffix truncationMarker (combineContent cs)"
    by (simp only: cut suffix_appendI suffix_order.refl)
  then show "suffix ([CHR 10, CHR 10] @ ''...[Content truncated to fit context limits]'')
               (combineContent cs)"
    by (simp add: truncationMarker_def)
next
  assume "length (joinWith contentSeparator cs) \<le> maxLength"
  then show "combineContent cs = joinWith contentSeparator cs"
    by (simp add: combineContent_def Let_def)
qed

theorem truncation_safety_witness:
  "combineContent [replicate 60000 (CHR ''x''), replicate 60000 (CHR ''y'')]
     = replicate 60000 (CHR ''x'') @ [CHR 10, CHR 10] @ ''---'' @ [CHR 10, CHR 10]
       @ replicate 29993 (CHR ''y'')
       @ [CHR 10, CHR 10] @ ''...[Content truncated to fit context limits]'' \<and>
   length (combineContent [replicate 60000 (CHR ''x''), replicate 60000 (CHR ''y'')]) = 90046 \<and>
   combineContent [''page one'', ''page two'']
     = ''page one'' @ [CHR 10, CHR 10] @ ''---'' @ [CHR 10, CHR 10] @ ''page two''"
proof -
  let ?x = "replicate 60000 (CHR ''x'')" and ?y = "replicate 60000 (CHR ''y'')"
  have sep: "contentSeparator = [CHR 10, CHR 10] @ ''---'' @ [CHR 10, CHR 10]"
    and marker: "truncationMarker
                   = [CHR 10, CHR 10] @ ''...[Content truncated to fit context limits]''"
    and m46: "length truncationMarker = 46"
    using truncation_safety [of "[?x, ?y]"] by blast+
  have sep7: "length contentSeparator = 7" by (simp add: contentSeparator_def)
  have joined: "joinWith contentSeparator [?x, ?y] = ?x @ contentSeparator @ ?y"
    by (simp only: joinWith.simps)
  have arith: "(60000::nat) + (7 + 60000) = 120007" "(90000::nat) < 120007"
    "min (90000::nat) 60000 = 60000" "(90000::nat) - 60000 = 30000"
    "(7::nat) \<le> 30000" "(30000::nat) - 7 = 29993" "min (29993::nat) 60000 = 29993"
    "(90000::nat) + 46 = 90046"
    by simp_all
  have len: "length (joinWith contentSeparator [?x, ?y]) = 120007"
    by (simp only: joined length_append length_replicate sep7 arith)
  have long: "maxLength < length (joinWith contentSeparator [?x, ?y])"
    by (simp only: len maxLength_def arith)
  have keep: "take 30000 contentSeparator = contentSeparator"
    by (rule take_all) (simp only: sep7 arith)
  have cut: "take maxLength (joinWith contentSeparator [?x, ?y])
               = ?x @ contentSeparator @ replicate 29993 (CHR ''y'')"
    by (simp only: joined maxLength_def take_append take_replicate length_replicate sep7 keep
          arith)
  from truncation_safety [of "[?x, ?y]"] long
  have "combineContent [?x, ?y]
          = take maxLength (joinWith contentSeparator [?x, ?y]) @ truncationMarker"
    and "length (combineContent [?x, ?y]) = maxLength + length truncationMarker"
    by blast+
  note cutoff = this
  have big: "combineContent [?x, ?y]
          = (?x @ contentSeparator @ replicate 29993 (CHR ''y'')) @ truncationMarker"
    using cutoff(1) by (simp only: cut)
  have biglen: "length (combineContent [?x, ?y]) = 90046"
    using cutoff(2) by (simp only: m46 maxLength_def arith)
  have "length (joinWith contentSeparator [''page one'', ''page two'']) \<le> maxLength"
    by (simp add: maxLength_def sep7)
  with truncation_safety [of "[''page one'', ''page two'']"]
  have small: "combineContent [''page one'', ''page two'']
          = joinWith contentSeparator [''page one'', ''page two'']"
    by blast
  have small': "combineContent [''page one'', ''page two'']
          = ''page one'' @ contentSeparator @ ''page two''"
    by (simp only: small joinWith.simps)
  show ?thesis
  proof (intro conjI)
    show "combineContent [?x, ?y]
            = ?x @ [CHR 10, CHR 10] @ ''---'' @ [CHR 10, CHR 10] @ replicate 29993 (CHR ''y'')
              @ [CHR 10, CHR 10] @ ''...[Content truncated to fit context limits]''"
      by (simp only: big sep marker append_assoc)
    show "length (combineContent [?x, ?y]) = 90046" by (rule biglen)
    show "combineContent [''page one'', ''page two'']
            = ''page one'' @ [CHR 10, CHR 10] @ ''---'' @ [CHR 10, CHR 10] @ ''page two''"
      by (simp only: small' sep append_assoc)
  qed
qed

lemma structuredAnalysis_categories:
  "\<forall>k \<in> set categoryKeys.
     getProp (structuredAnalysis a t m) k = Some (orDefault (getProp a k) (categoryPlaceholder k))"
  by (simp add: categoryKeys_def structuredAnalysis_def categoryPlaceholder_def)

lemma structuredAnalysis_no_error: "getProp (structuredAnalysis a t m) ''error'' = None"
  by (simp add: structuredAnalysis_def)

lemma fallbackAnalysis_categories:
  "\<forall>k \<in> set categoryKeys.
     getProp (fallbackAnalysis raw t m) k =
       Some (if k = ''outreach_angles'' then JArr [JStr ''Standard professional outreach recommended'']
             else parsingErrorPlaceholder)"
  by (simp add: categoryKeys_def fallbackAnalysis_def)

lemma fallbackAnalysis_diagnosis:
  "getProp (fallbackAnalysis raw t m) ''intelligence_quality'' = Some (JStr ''low'') \<and>
   getProp (fallbackAnalysis raw t m) ''error'' = Some (JStr ''JSON parsing failed'') \<and>
   getProp (fallbackAnalysis raw t m) ''raw_response'' = Some (JStr (take 500 raw))"
  by (simp add: fallbackAnalysis_def)

lemma summarise_parsed:
  "json_parse w raw = Some a \<Longrightarrow> a \<noteq> JNull \<Longrightarrow>
   summarise w (Str raw) m = structuredAnalysis a (clock_now w) m"
  by (cases a) (simp_all add: summarise_def)

lemma summarise_unparsed:
  "json_parse w raw = None \<or> json_parse w raw = Some JNull \<Longrightarrow>
   summarise w (Str raw) m = fallbackAnalysis raw (clock_now w) m"
  by (auto simp: summarise_def)

lemma generatePersonalitySummary_text:
  "openai_complete w tr (summaryPrompt (template n) (combineContent cs)) = Inr (Str raw) \<Longrightarrow>
   fst (generatePersonalitySummary w n cs tr) = summarise w (Str raw) (length cs)"
  by (simp add: generatePersonalitySummary_def Let_def)

lemma generatePersonalitySummary_thrown:
  "openai_complete w tr (summaryPrompt (template n) (combineContent cs)) = Inl message \<Longrightarrow>
   fst (generatePersonalitySummary w n cs tr) = processingError message (clock_now w)"
  by (simp add: generatePersonalitySummary_def Let_def)

lemma generatePersonalitySummary_no_text:
  "openai_complete w tr (summaryPrompt (template n) (combineContent cs)) = Inr v \<Longrightarrow>
   v = Null \<or> v = Undefined \<Longrightarrow>
   fst (generatePersonalitySummary w n cs tr)
     = processingError (substring_error w v) (clock_now w)"
  by (auto simp: generatePersonalitySummary_def Let_def summarise_def)

lemma processingError_shape:
  "processingError message t =
     JObj [(''error'', JStr message),
           (''summary'', JStr ''Unable to extract competitive intelligence due to processing error''),
           (''intelligence_quality'', JStr ''low''),
           (''generated_at'', JStr t)] \<and>
   (\<forall>k \<in> set categoryKeys. getProp (processingError message t) k = None)"
  by (simp add: processingError_def categoryKeys_def)

text \<open>
  Claim C6, as the code has it. There are eight category keys. Whenever the provider
  answers with text, the result of the summarizer holds every one of them. After a
  successful parse each category holds the value of the reply, or its placeholder list when
  the reply omitted it (or gave a falsy value), and there is no error field. When the text
  does not parse (or parses to \<open>null\<close>) the result is the degraded object: seven
  categories hold the parsing-error placeholder and \<open>outreach_angles\<close> holds
  \<open>Standard professional outreach recommended\<close>, \<open>intelligence_quality\<close> is \<open>low\<close>,
  the error field is set, and \<open>raw_response\<close> holds the first 500 characters of the reply.
  When the provider call throws, or yields \<open>null\<close> or \<open>undefined\<close> in place of text, the
  result is the object of the outer \<open>catch\<close>: \<open>error\<close> with the message of the exception,
  \<open>summary\<close>, \<open>intelligence_quality\<close> \<open>low\<close> and \<open>generated_at\<close>, and no category key.
\<close>

theorem summarizer_result_by_provider_outcome:
  "categoryKeys =
     [''current_projects'', ''recent_developments'', ''strategic_priorities'',
      ''industry_involvement'', ''company_context'', ''competitive_intelligence'',
      ''outreach_angles'', ''recent_quotes_or_statements''] \<and>
   (openai_complete w tr (summaryPrompt (template n) (combineContent cs)) = Inr (Str raw) \<longrightarrow>
      (\<forall>k \<in> set categoryKeys. getProp (fst (generatePersonalitySummary w n cs tr)) k \<noteq> None) \<and>
      (json_parse w raw = Some a \<and> a \<noteq> JNull \<longrightarrow>
         (\<forall>k \<in> set categoryKeys.
            getProp (fst (generatePersonalitySummary w n cs tr)) k
              = Some (orDefault (getProp a k) (categoryPlaceholder k))) \<and>
         getProp (fst (generatePersonalitySummary w n cs tr)) ''error'' = None) \<and>
      (json_parse w raw = None \<or> json_parse w raw = Some JNull \<longrightarrow>
         (\<forall>k \<in> set categoryKeys.
            getProp (fst (generatePersonalitySummary w n cs tr)) k
              = Some (if k = ''outreach_angles''
                      then JArr [JStr ''Standard professional outreach recommended'']
                      else JArr [JStr ''Analysis parsing error - unable to extract information''])) \<and>
         getProp (fst (generatePersonalitySummary w n cs tr)) ''intelligence_quality''
           = Some (JStr ''low'') \<and>
         getProp (fst (generatePersonalitySummary w n cs tr)) ''error''
           = Some (JStr ''JSON parsing failed'') \<and>
         getProp (fst (generatePersonalitySummary w n cs tr)) ''raw_response''
           = Some (JStr (take 500 raw)))) \<and>
   (openai_complete w tr (summaryPrompt (template n) (combineContent cs)) = Inl message \<longrightarrow>
      fst (generatePersonalitySummary w n cs tr)
        = JObj [(''error'', JStr message),
                (''summary'', JStr ''Unable to extract competitive intelligence due to processing error''),
                (''intelligence_quality'', JStr ''low''),
                (''generated_at'', JStr (clock_now w))] \<and>
      (\<forall>k \<in> set categoryKeys. getProp (fst (generatePersonalitySummary w n cs tr)) k = None)) \<and>
   (openai_complete w tr (summaryPrompt (template n) (combineContent cs)) = Inr v
      \<and> (v = Null \<or> v = Undefined) \<longrightarrow>
      fst (generatePersonalitySummary w n cs tr)
        = JObj [(''error'', JStr (substring_error w v)),
                (''summary'', JStr ''Unable to extract competitive intelligence due to processing error''),
                (''intelligence_quality'', JStr ''low''),
                (''generated_at'', JStr (clock_now w))] \<and>
      (\<forall>k \<in> set categoryKeys. getProp (fst (generatePersonalitySummary w n cs tr)) k = None))"
proof (intro conjI)
  let ?r = "fst (generatePersonalitySummary w n cs tr)"
  let ?p = "summaryPrompt (template n) (combineContent cs)"
  show "categoryKeys =
     [''current_projects'', ''recent_developments'', ''strategic_priorities'',
      ''industry_involvement'', ''company_context'', ''competitive_intelligence'',
      ''outreach_angles'', ''recent_quotes_or_statements'']"
    by (simp add: categoryKeys_def)
  show "openai_complete w tr ?p = Inl message \<longrightarrow>
      ?r = JObj [(''error'', JStr message),
                (''summary'', JStr ''Unable to extract competitive intelligence due to processing error''),
                (''intelligence_quality'', JStr ''low''),
                (''generated_at'', JStr (clock_now w))] \<and>
      (\<forall>k \<in> set categoryKeys. getProp ?r k = None)"
  proof
    assume "openai_complete w tr ?p = Inl message"
    then have eq: "?r = processingError message (clock_now w)"
      by (rule generatePersonalitySummary_thrown)
    show "?r = JObj [(''error'', JStr message),
                (''summary'', JStr ''Unable to extract competitive intelligence due to processing error''),
                (''intelligence_quality'', JStr ''low''),
                (''generated_at'', JStr (clock_now w))] \<and>
      (\<forall>k \<in> set categoryKeys. getProp ?r k = None)"
      unfolding eq by (rule processingError_shape)
  qed
  show "openai_complete w tr ?p = Inr v \<and> (v = Null \<or> v = Undefined) \<longrightarrow>
      ?r = JObj [(''error'', JStr (substring_error w v)),
                (''summary'', JStr ''Unable to extract competitive intelligence due to processing error''),
                (''intelligence_quality'', JStr ''low''),
                (''generated_at'', JStr (clock_now w))] \<and>
      (\<forall>k \<in> set categoryKeys. getProp ?r k = None)"
  proof
    assume h: "openai_complete w tr ?p = Inr v \<and> (v = Null \<or> v = Undefined)"
    then have eq: "?r = processingError (substring_error w v) (clock_now w)"
      using generatePersonalitySummary_no_text [of w tr n cs v] by blast
    show "?r = JObj [(''error'', JStr (substring_error w v)),
                (''summary'', JStr ''Unable to extract competitive intelligence due to processing error''),
                (''intelligence_quality'', JStr ''low''),
                (''generated_at'', JStr (clock_now w))] \<and>
      (\<forall>k \<in> set categoryKeys. getProp ?r k = None)"
      unfolding eq by (rule processingError_shape)
  qed
  show "openai_complete w tr ?p = Inr (Str raw) \<longrightarrow>
      (\<forall>k \<in> set categoryKeys. getProp ?r k \<noteq> None) \<and>
      (json_parse w raw = Some a \<and> a \<noteq> JNull \<longrightarrow>
         (\<forall>k \<in> set categoryKeys.
            getProp ?r k = Some (orDefault (getProp a k) (categoryPlaceholder k))) \<and>
         getProp ?r ''error'' = None) \<and>
      (json_parse w raw = None \<or> json_parse w raw = Some JNull \<longrightarrow>
         (\<forall>k \<in> set categoryKeys.
            getProp ?r k
              = Some (if k = ''outreach_angles''
                      then JArr [JStr ''Standard professional outreach recommended'']
                      else JArr [JStr ''Analysis parsing error - unable to extract information''])) \<and>
         getProp ?r ''intelligence_quality'' = Some (JStr ''low'') \<and>
         getProp ?r ''error'' = Some (JStr ''JSON parsing failed'') \<and>
         getProp ?r ''raw_response'' = Some (JStr (take 500 raw)))"
  proof
    assume "openai_complete w tr ?p = Inr (Str raw)"
    then have r: "?r = summarise w (Str raw) (length cs)"
      by (rule generatePersonalitySummary_text)
    have parsed: "json_parse w raw = Some a \<and> a \<noteq> JNull \<longrightarrow>
         (\<forall>k \<in> set categoryKeys.
            getProp ?r k = Some (orDefault (getProp a k) (categoryPlaceholder k))) \<and>
         getProp ?r ''error'' = None"
      using structuredAnalysis_categories structuredAnalysis_no_error
      by (simp add: r summarise_parsed)
    have unparsed: "json_parse w raw = None \<or> json_parse w raw = Some JNull \<longrightarrow>
         (\<forall>k \<in> set categoryKeys.
            getProp ?r k
              = Some (if k = ''outreach_angles''
                      then JArr [JStr ''Standard professional outreach recommended'']
                      else JArr [JStr ''Analysis parsing error - unable to extract information''])) \<and>
         getProp ?r ''intelligence_quality'' = Some (JStr ''low'') \<and>
         getProp ?r ''error'' = Some (JStr ''JSON parsing failed'') \<and>
         getProp ?r ''raw_response'' = Some (JStr (take 500 raw))"
      using fallbackAnalysis_categories fallbackAnalysis_diagnosis
      by (simp add: r summarise_unparsed parsingErrorPlaceholder_def)
    have present: "\<forall>k \<in> set categoryKeys. getProp ?r k \<noteq> None"
    proof (cases "json_parse w raw")
      case None
      with unparsed show ?thesis by simp
    next
      case (Some b)
      show ?thesis
      proof (cases "b = JNull")
        case True
        with Some unparsed show ?thesis by simp
      next
        case False
        with Some structuredAnalysis_categories [of b "clock_now w" "length cs"]
        show ?thesis by (simp add: r summarise_parsed)
      qed
    qed
    from present parsed unparsed
    show "(\<forall>k \<in> set categoryKeys. getProp ?r k \<noteq> None) \<and>
      (json_parse w raw = Some a \<and> a \<noteq> JNull \<longrightarrow>
         (\<forall>k \<in> set categoryKeys.
            getProp ?r k = Some (orDefault (getProp a k) (categoryPlaceholder k))) \<and>
         getProp ?r ''error'' = None) \<and>
      (json_parse w raw = None \<or> json_parse w raw = Some JNull \<longrightarrow>
         (\<forall>k \<in> set categoryKeys.
            getProp ?r k
              = Some (if k = ''outreach_angles''
                      then JArr [JStr ''Standard professional outreach recommended'']
                      else JArr [JStr ''Analysis parsing error - unable to extract information''])) \<and>
         getProp ?r ''intelligence_quality'' = Some (JStr ''low'') \<and>
         getProp ?r ''error'' = Some (JStr ''JSON parsing failed'') \<and>
         getProp ?r ''raw_response'' = Some (JStr (take 500 raw)))"
      by (intro conjI)
  qed
qed

theorem summarizer_result_by_provider_outcome_witness:
  "getProp (fst (generatePersonalitySummary lowQualityWorld (Str ''Jane Doe'')
                   [''Jane Doe leads the payments programme at Acme.''] []))
           ''current_projects''
     = Some (JArr [JStr ''No specific current projects identified'']) \<and>
   getProp (fst (generatePersonalitySummary garbledWorld (Str ''Jane Doe'')
                   [''Jane Doe leads the payments programme at Acme.''] []))
           ''outreach_angles''
     = Some (JArr [JStr ''Standard professional outreach recommended'']) \<and>
   getProp (fst (generatePersonalitySummary garbledWorld (Str ''Jane Doe'')
                   [''Jane Doe leads the payments programme at Acme.''] []))
           ''recent_developments''
     = Some (JArr [JStr ''Analysis parsing error - unable to extract information'']) \<and>
   getProp (fst (generatePersonalitySummary garbledWorld (Str ''Jane Doe'')
                   [''Jane Doe leads the payments programme at Acme.''] []))
           ''raw_response''
     = Some (JStr ''Sorry, I cannot help with that.'') \<and>
   fst (generatePersonalitySummary providerDownWorld (Str ''Jane Doe'')
          [''Jane Doe leads the payments programme at Acme.''] [])
     = JObj [(''error'', JStr ''Request timed out''),
             (''summary'', JStr ''Unable to extract competitive intelligence due to processing error''),
             (''intelligence_quality'', JStr ''low''),
             (''generated_at'', JStr ''2025-01-01T00:00:00.000Z'')] \<and>
   fst (generatePersonalitySummary emptyReplyWorld (Str ''Jane Doe'')
          [''Jane Doe leads the payments programme at Acme.''] [])
     = JObj [(''error'', JStr ''Cannot read properties of null (reading 'substring')''),
             (''summary'', JStr ''Unable to extract competitive intelligence due to processing error''),
             (''intelligence_quality'', JStr ''low''),
             (''generated_at'', JStr ''2025-01-01T00:00:00.000Z'')]"
proof -
  let ?n = "Str ''Jane Doe''"
  let ?cs = "[''Jane Doe leads the payments programme at Acme.'']"
  let ?p = "summaryPrompt (template ?n) (combineContent ?cs)"
  let ?a = "JObj [(''intelligence_quality'', JStr ''low'')]"
  have keys: "''current_projects'' \<in> set categoryKeys" "''outreach_angles'' \<in> set categoryKeys"
    "''recent_developments'' \<in> set categoryKeys"
    by (simp_all add: categoryKeys_def)
  have low: "openai_complete lowQualityWorld [] ?p = Inr (Str openaiLowReply)"
    by (simp add: lowQualityWorld_def)
  have lowp: "json_parse lowQualityWorld openaiLowReply = Some ?a \<and> ?a \<noteq> JNull"
    by (simp add: lowQualityWorld_def)
  note lowCase =
    summarizer_result_by_provider_outcome
      [where w = lowQualityWorld and tr = "[]" and n = ?n and cs = ?cs
         and raw = openaiLowReply and a = ?a and message = "[]" and v = Null,
       THEN conjunct2, THEN conjunct1, THEN mp, OF low]
  note lowParsed = lowCase [THEN conjunct2, THEN conjunct1, THEN mp, OF lowp, THEN conjunct1]
  have c1:
    "getProp (fst (generatePersonalitySummary lowQualityWorld ?n ?cs [])) ''current_projects''
       = Some (JArr [JStr ''No specific current projects identified''])"
    using lowParsed [THEN bspec, OF keys(1)] by (simp add: categoryPlaceholder_def)
  have garbled: "openai_complete garbledWorld [] ?p = Inr (Str ''Sorry, I cannot help with that.'')"
    by (simp add: garbledWorld_def)
  have garbledp: "json_parse garbledWorld ''Sorry, I cannot help with that.'' = None
                  \<or> json_parse garbledWorld ''Sorry, I cannot help with that.'' = Some JNull"
    by (simp add: garbledWorld_def)
  note garbledCase =
    summarizer_result_by_provider_outcome
      [where w = garbledWorld and tr = "[]" and n = ?n and cs = ?cs
         and raw = "''Sorry, I cannot help with that.''" and a = ?a and message = "[]"
         and v = Null,
       THEN conjunct2, THEN conjunct1, THEN mp, OF garbled,
       THEN conjunct2, THEN conjunct2, THEN mp, OF garbledp]
  have c2:
    "getProp (fst (generatePersonalitySummary garbledWorld ?n ?cs [])) ''outreach_angles''
       = Some (JArr [JStr ''Standard professional outreach recommended''])"
    using garbledCase [THEN conjunct1, THEN bspec, OF keys(2)] by simp
  have c3:
    "getProp (fst (generatePersonalitySummary garbledWorld ?n ?cs [])) ''recent_developments''
       = Some (JArr [JStr ''Analysis parsing error - unable to extract information''])"
    using garbledCase [THEN conjunct1, THEN bspec, OF keys(3)] by simp
  have c4:
    "getProp (fst (generatePersonalitySummary garbledWorld ?n ?cs [])) ''raw_response''
       = Some (JStr ''Sorry, I cannot help with that.'')"
    using garbledCase [THEN conjunct2, THEN conjunct2, THEN conjunct2] by simp
  have down: "openai_complete providerDownWorld [] ?p = Inl ''Request timed out''"
    and t: "clock_now providerDownWorld = ''2025-01-01T00:00:00.000Z''"
    by (simp_all add: providerDownWorld_def)
  note downCase =
    summarizer_result_by_provider_outcome
      [where w = providerDownWorld and tr = "[]" and n = ?n and cs = ?cs
         and raw = "[]" and a = ?a and message = "''Request timed out''" and v = Null,
       THEN conjunct2, THEN conjunct2, THEN conjunct1, THEN mp, OF down, THEN conjunct1]
  have c5: "fst (generatePersonalitySummary providerDownWorld ?n ?cs [])
     = JObj [(''error'', JStr ''Request timed out''),
             (''summary'', JStr ''Unable to extract competitive intelligence due to processing error''),
             (''intelligence_quality'', JStr ''low''),
             (''generated_at'', JStr ''2025-01-01T00:00:00.000Z'')]"
    using downCase by (simp only: t)
  have empty: "openai_complete emptyReplyWorld [] ?p = Inr Null \<and> (Null = Null \<or> Null = Undefined)"
    and t': "clock_now emptyReplyWorld = ''2025-01-01T00:00:00.000Z''"
    and e: "substring_error emptyReplyWorld Null = ''Cannot read properties of null (reading 'substring')''"
    by (simp_all add: emptyReplyWorld_def)
  note emptyCase =
    summarizer_result_by_provider_outcome
      [where w = emptyReplyWorld and tr = "[]" and n = ?n and cs = ?cs
         and raw = "[]" and a = ?a and message = "[]" and v = Null,
       THEN conjunct2, THEN conjunct2, THEN conjunct2, THEN mp, OF empty, THEN conjunct1]
  have c6: "fst (generatePersonalitySummary emptyReplyWorld ?n ?cs [])
     = JObj [(''error'', JStr ''Cannot read properties of null (reading 'substring')''),
             (''summary'', JStr ''Unable to extract competitive intelligence due to processing error''),
             (''intelligence_quality'', JStr ''low''),
             (''generated_at'', JStr ''2025-01-01T00:00:00.000Z'')]"
    using emptyCase by (simp only: t' e)
  from c1 c2 c3 c4 c5 c6 show ?thesis by (intro conjI)
qed

text \<open>
  The result does not always hold the category keys: when the provider call itself throws,
  the outer \<open>catch\<close> returns an object with \<open>error\<close>, \<open>summary\<close>,
  \<open>intelligence_quality\<close> and \<open>generated_at\<close> only.
\<close>

theorem summarizer_keys_counterexample:
  "getProp (fst (generatePersonalitySummary providerDownWorld (Str ''Jane Doe'')
                   [''Jane Doe leads the payments programme at Acme.''] []))
           ''current_projects'' = None"
  by (simp add: generatePersonalitySummary_def Let_def providerDownWorld_def processingError_def)

subsection \<open>Enrichment orchestrator\<close>

lemma enrich_reuses_content:
  assumes "\<not> alreadyAnalysed l" and "scraped_content l = Some cs" and "cs \<noteq> []"
  shows "fst (enrichLeadWithPersonalityAnalysis w l tr)
           = enrichedLead w [] [] cs (fst (generatePersonalitySummary w (name l) cs tr)) l"
  using assms
  by (simp add: enrichLeadWithPersonalityAnalysis_def analyseContent_def Let_def
           split: prod.splits)

lemma fresh_search_pass:
  assumes "\<not> alreadyAnalysed l" and "scraped_content l = None"
    and "name l = Str ''Jane Doe''" and "company l = Str ''Acme''"
  shows "\<exists>c. fst (enrichLeadWithPersonalityAnalysis freshSearchWorld l [])
           = enrichedLead freshSearchWorld [] [newsResult] [c]
               (structuredAnalysis (JObj [(''intelligence_quality'', JStr ''low'')])
                  ''2025-01-01T00:00:00.000Z'' 1) l"
proof -
  have found: "formatResult freshSearchWorld (Str ''Jane Doe'') (0, newsItem) = newsResult"
    by (simp add: formatResult_def newsItem_def newsResult_def firstTruthy_def)
  have valid: "validResult newsResult"
    by (simp add: validResult_def newsResult_def)
  have search: "searchPersonWithJina freshSearchWorld (name l) (company l) []
                  = ([newsResult], [SearchCall ''Jane Doe Acme''])"
    using found valid assms(3,4)
    by (simp add: searchPersonWithJina_def searchApproaches_def freshSearchWorld_def
          enumerate_eq_zip)
  have kind: "\<not> isLinkedIn newsResult" "isScrapeable newsResult"
    by (simp_all add: isLinkedIn_def isScrapeable_def newsResult_def)
  have "\<exists>c t. scrapeSites freshSearchWorld [newsResult] [] [SearchCall ''Jane Doe Acme'']
                  = ([c], t)"
    by (simp add: getWebsiteContent_def freshSearchWorld_def newsResult_def substantial_def)
  then obtain c t where sc:
    "scrapeSites freshSearchWorld [newsResult] [] [SearchCall ''Jane Doe Acme''] = ([c], t)"
    by blast
  have summary: "fst (generatePersonalitySummary freshSearchWorld (name l) [c] t)
       = structuredAnalysis (JObj [(''intelligence_quality'', JStr ''low'')])
           ''2025-01-01T00:00:00.000Z'' 1"
    by (simp add: generatePersonalitySummary_def Let_def freshSearchWorld_def summarise_def)
  have "fst (enrichLeadWithPersonalityAnalysis freshSearchWorld l [])
          = enrichedLead freshSearchWorld [] [newsResult] [c]
              (fst (generatePersonalitySummary freshSearchWorld (name l) [c] t)) l"
    using assms(1,2) search kind sc
    by (auto simp: enrichLeadWithPersonalityAnalysis_def analyseContent_def Let_def
             split: prod.splits)
  with summary show ?thesis by auto
qed

text \<open>
  Claim C2, evaluated on the code. A new lead is searched, one page is scraped and
  summarized; the reply parses, carries no error and has \<open>intelligence_quality\<close> \<open>low\<close>.
  The readiness flag is nevertheless true: it is computed from the property
  \<open>confidence_level\<close>, which the summarizer's result never has.
\<close>

theorem ready_flag_ignores_intelligence_quality:
  "propOf (personality_analysis
             (fst (enrichLeadWithPersonalityAnalysis freshSearchWorld newJane [])))
          ''error'' = None \<and>
   propOf (personality_analysis
             (fst (enrichLeadWithPersonalityAnalysis freshSearchWorld newJane [])))
          ''intelligence_quality'' = Some (JStr ''low'') \<and>
   ready_for_outreach (fst (enrichLeadWithPersonalityAnalysis freshSearchWorld newJane []))
     = Some True"
proof -
  have "\<not> alreadyAnalysed newJane" and "scraped_content newJane = None"
    and "name newJane = Str ''Jane Doe''" and "company newJane = Str ''Acme''"
    by (simp_all add: alreadyAnalysed_def newJane_def emptyLead_def)
  then obtain c where
    "fst (enrichLeadWithPersonalityAnalysis freshSearchWorld newJane [])
       = enrichedLead freshSearchWorld [] [newsResult] [c]
           (structuredAnalysis (JObj [(''intelligence_quality'', JStr ''low'')])
              ''2025-01-01T00:00:00.000Z'' 1) newJane"
    using fresh_search_pass by blast
  then show ?thesis
    by (simp add: enrichedLead_def structuredAnalysis_def propOf_def orElse_def)
qed

lemma needsAnalysis_iff: "needsAnalysis l = (\<not> alreadyAnalysed l)"
  by (auto simp: needsAnalysis_def alreadyAnalysed_def)

lemma leadsToEnrich_selected:
  assumes "k \<in> set (leadsToEnrich leads)"
  shows "k < length leads \<and> \<not> alreadyAnalysed (leads ! k)"
proof -
  from assms have "k \<in> set (sort_key (\<lambda>k. - orZero (confidence_score (leads ! k)))
                      (filter (\<lambda>k. needsAnalysis (leads ! k)) [0..<length leads]))"
    unfolding leadsToEnrich_def by (rule in_set_takeD)
  then show ?thesis by (simp add: needsAnalysis_iff)
qed

lemma leadsToEnrich_all_done:
  assumes "\<forall>l \<in> set leads. alreadyAnalysed l"
  shows "leadsToEnrich leads = []"
proof -
  have "filter (\<lambda>k. needsAnalysis (leads ! k)) [0..<length leads] = []"
    using assms by (simp add: filter_empty_conv needsAnalysis_iff)
  then show ?thesis by (simp add: leadsToEnrich_def)
qed

lemma enrichLeadsWithPersonalityData_untouched:
  "k \<notin> set ks \<Longrightarrow> fst (enrichLeadsWithPersonalityData w logFails ks leads tr) ! k = leads ! k"
proof (induction ks arbitrary: leads tr)
  case Nil
  show ?case by simp
next
  case (Cons j ks)
  then have "k \<noteq> j" and "k \<notin> set ks" by simp_all
  with Cons.IH show ?case by (simp split: prod.splits)
qed

text \<open>
  Claim C4. A lead that carries a personality analysis without error is returned as it is
  by the per-lead enrichment function, with the trace of provider calls unchanged: no
  search, no page read and no completion request is issued for it. The selection of a run
  contains only positions of leads that are not yet analysed, so a run leaves every analysed
  lead as it was, and a run over leads that are all analysed changes nothing and calls no
  provider.
\<close>

theorem analysed_lead_is_skipped:
  "(alreadyAnalysed l \<longrightarrow> enrichLeadWithPersonalityAnalysis w l tr = (l, tr)) \<and>
   (\<forall>k \<in> set (leadsToEnrich leads). k < length leads \<and> \<not> alreadyAnalysed (leads ! k)) \<and>
   (k < length leads \<and> alreadyAnalysed (leads ! k) \<longrightarrow>
      fst (enrichRun w logFails leads tr) ! k = leads ! k) \<and>
   ((\<forall>l \<in> set leads. alreadyAnalysed l) \<longrightarrow> enrichRun w logFails leads tr = (leads, tr))"
proof (intro conjI impI ballI)
  assume "alreadyAnalysed l"
  then show "enrichLeadWithPersonalityAnalysis w l tr = (l, tr)"
    by (simp add: enrichLeadWithPersonalityAnalysis_def)
next
  fix j assume "j \<in> set (leadsToEnrich leads)"
  then show "j < length leads" and "\<not> alreadyAnalysed (leads ! j)"
    using leadsToEnrich_selected by blast+
next
  assume "k < length leads \<and> alreadyAnalysed (leads ! k)"
  then have "k \<notin> set (leadsToEnrich leads)"
    using leadsToEnrich_selected by blast
  then show "fst (enrichRun w logFails leads tr) ! k = leads ! k"
    by (simp add: enrichRun_def enrichLeadsWithPersonalityData_untouched)
next
  assume "\<forall>l \<in> set leads. alreadyAnalysed l"
  then show "enrichRun w logFails leads tr = (leads, tr)"
    by (simp add: enrichRun_def leadsToEnrich_all_done)
qed

theorem analysed_lead_is_skipped_witness:
  "enrichLeadWithPersonalityAnalysis lowQualityWorld doneJane [] = (doneJane, []) \<and>
   fst (enrichRun lowQualityWorld (\<lambda>a. None) [doneJane, pendingJane] []) ! 0 = doneJane \<and>
   0 \<notin> set (leadsToEnrich [doneJane, pendingJane]) \<and>
   enrichRun lowQualityWorld (\<lambda>a. None) [doneJane] [] = ([doneJane], [])"
proof -
  have d: "alreadyAnalysed doneJane"
    by (simp add: alreadyAnalysed_def doneJane_def propOf_def)
  from d analysed_lead_is_skipped
         [where l = doneJane and w = lowQualityWorld and tr = "[]"
            and leads = "[doneJane, pendingJane]" and k = 0 and logFails = "\<lambda>a. None"]
  have "enrichLeadWithPersonalityAnalysis lowQualityWorld doneJane [] = (doneJane, [])"
    and "fst (enrichRun lowQualityWorld (\<lambda>a. None) [doneJane, pendingJane] []) ! 0 = doneJane"
    and "0 \<notin> set (leadsToEnrich [doneJane, pendingJane])"
    by auto
  moreover from d analysed_lead_is_skipped
         [where l = doneJane and w = lowQualityWorld and tr = "[]"
            and leads = "[doneJane]" and k = 0 and logFails = "\<lambda>a. None"]
  have "enrichRun lowQualityWorld (\<lambda>a. None) [doneJane] [] = ([doneJane], [])"
    by simp
  ultimately show ?thesis by simp
qed

lemma analyseContent_shape:
  "fst (analyseContent w li ws cs l tr) = noContentLead w li ws l \<or>
   (\<exists>a. fst (analyseContent w li ws cs l tr) = enrichedLead w li ws cs a l)"
  by (auto simp: analyseContent_def split: prod.splits)

lemma enrich_shape:
  "fst (enrichLeadWithPersonalityAnalysis w l tr) = l \<or>
   fst (enrichLeadWithPersonalityAnalysis w l tr) = noResultsLead w l \<or>
   (\<exists>li ws. fst (enrichLeadWithPersonalityAnalysis w l tr) = noContentLead w li ws l) \<or>
   (\<exists>li ws cs a. fst (enrichLeadWithPersonalityAnalysis w l tr) = enrichedLead w li ws cs a l)"
proof (cases "alreadyAnalysed l")
  case True
  then show ?thesis by (simp add: enrichLeadWithPersonalityAnalysis_def)
next
  case False
  define existing where "existing = (case scraped_content l of Some contents \<Rightarrow> contents | None \<Rightarrow> [])"
  show ?thesis
  proof (cases "length existing = 0")
    case reuse: False
    then have "fst (enrichLeadWithPersonalityAnalysis w l tr)
                 = fst (analyseContent w [] [] existing l tr)"
      using False by (simp add: enrichLeadWithPersonalityAnalysis_def existing_def Let_def)
    with analyseContent_shape [of w "[]" "[]" existing l tr] show ?thesis by metis
  next
    case search: True
    obtain searchResults tr1 where s: "searchPersonWithJina w (name l) (company l) tr = (searchResults, tr1)"
      by (cases "searchPersonWithJina w (name l) (company l) tr")
    show ?thesis
    proof (cases "length searchResults = 0")
      case True
      with False search s show ?thesis
        by (simp add: enrichLeadWithPersonalityAnalysis_def existing_def Let_def)
    next
      case found: False
      define li where "li = filter isLinkedIn searchResults"
      define nl where "nl = filter isScrapeable searchResults"
      obtain c1 tr2 where sc: "scrapeSites w (take 3 nl) existing tr1 = (c1, tr2)"
        by (cases "scrapeSites w (take 3 nl) existing tr1")
      obtain c2 tr3 where ad:
        "(if length c1 < 2 \<and> length nl > 3
          then scrapeAdditional w (take 2 (drop 3 nl)) c1 tr2 else (c1, tr2)) = (c2, tr3)"
        by (cases "if length c1 < 2 \<and> length nl > 3
          then scrapeAdditional w (take 2 (drop 3 nl)) c1 tr2 else (c1, tr2)")
      have "fst (enrichLeadWithPersonalityAnalysis w l tr)
              = fst (analyseContent w li (take 3 nl) c2 l tr3)"
        using False search s found sc ad
        by (simp add: enrichLeadWithPersonalityAnalysis_def existing_def [symmetric] Let_def
              li_def [symmetric] nl_def [symmetric])
      with analyseContent_shape [of w li "take 3 nl" c2 l tr3] show ?thesis by metis
    qed
  qed
qed

lemma enrich_search_path:
  assumes "\<not> alreadyAnalysed l"
    and "scraped_content l = None \<or> scraped_content l = Some []"
    and "searchPersonWithJina w (name l) (company l) tr = (sr, tr1)"
  shows "sr = [] \<Longrightarrow> fst (enrichLeadWithPersonalityAnalysis w l tr) = noResultsLead w l"
    and "sr \<noteq> [] \<Longrightarrow> scrapedContents w sr tr1 = [] \<Longrightarrow>
           fst (enrichLeadWithPersonalityAnalysis w l tr)
             = noContentLead w (filter isLinkedIn sr) (take 3 (filter isScrapeable sr)) l"
    and "sr \<noteq> [] \<Longrightarrow> scrapedContents w sr tr1 \<noteq> [] \<Longrightarrow>
           \<exists>a. fst (enrichLeadWithPersonalityAnalysis w l tr)
             = enrichedLead w (filter isLinkedIn sr) (take 3 (filter isScrapeable sr))
                 (scrapedContents w sr tr1) a l"
proof -
  have existing: "(case scraped_content l of Some contents \<Rightarrow> contents | None \<Rightarrow> []) = []"
    using assms(2) by auto
  define nl where "nl = filter isScrapeable sr"
  obtain c1 tr2 where sc: "scrapeSites w (take 3 nl) [] tr1 = (c1, tr2)"
    by (cases "scrapeSites w (take 3 nl) [] tr1")
  obtain c2 tr3 where ad:
    "(if length c1 < 2 \<and> length nl > 3
      then scrapeAdditional w (take 2 (drop 3 nl)) c1 tr2 else (c1, tr2)) = (c2, tr3)"
    by (cases "if length c1 < 2 \<and> length nl > 3
      then scrapeAdditional w (take 2 (drop 3 nl)) c1 tr2 else (c1, tr2)")
  have contents: "scrapedContents w sr tr1 = c2"
    using sc ad by (simp add: scrapedContents_def Let_def nl_def [symmetric])
  show "sr = [] \<Longrightarrow> fst (enrichLeadWithPersonalityAnalysis w l tr) = noResultsLead w l"
    using assms(1,3) existing by (simp add: enrichLeadWithPersonalityAnalysis_def Let_def)
  have step: "sr \<noteq> [] \<Longrightarrow> fst (enrichLeadWithPersonalityAnalysis w l tr)
                = fst (analyseContent w (filter isLinkedIn sr) (take 3 nl) c2 l tr3)"
    using assms(1,3) existing sc ad
    by (simp add: enrichLeadWithPersonalityAnalysis_def Let_def nl_def [symmetric])
  show "sr \<noteq> [] \<Longrightarrow> scrapedContents w sr tr1 = [] \<Longrightarrow>
           fst (enrichLeadWithPersonalityAnalysis w l tr)
             = noContentLead w (filter isLinkedIn sr) (take 3 (filter isScrapeable sr)) l"
    using step contents by (simp add: analyseContent_def nl_def)
  show "sr \<noteq> [] \<Longrightarrow> scrapedContents w sr tr1 \<noteq> [] \<Longrightarrow>
           \<exists>a. fst (enrichLeadWithPersonalityAnalysis w l tr)
             = enrichedLead w (filter isLinkedIn sr) (take 3 (filter isScrapeable sr))
                 (scrapedContents w sr tr1) a l"
    using step contents by (auto simp: analyseContent_def nl_def split: prod.splits)
qed

text \<open>
  Claim C8, as the code has it. A pass never removes what the lead carried in
  \<open>search_results\<close> and \<open>enrichment_sources\<close>, and \<open>scraped_content\<close> can only grow at its
  end. The list \<open>personality_sources\<close> is not appended to. A pass that skips the lead
  leaves it as it was. A pass that reuses stored content replaces it by the empty list.
  A pass that searches leaves it as it was when the search finds nothing and when no
  scraped page has substantial content; otherwise it reaches summarization and replaces the
  list by the sources of this pass alone: a reference to the first LinkedIn result, if
  there is one, followed by one entry for each of the first three scrapeable results.
\<close>

theorem sources_by_pass_outcome:
  "search_results (fst (enrichLeadWithPersonalityAnalysis w l tr)) = search_results l \<and>
   enrichment_sources (fst (enrichLeadWithPersonalityAnalysis w l tr)) = enrichment_sources l \<and>
   (\<exists>added. scraped_content (fst (enrichLeadWithPersonalityAnalysis w l tr))
              = map_option (\<lambda>contents. contents @ added) (scraped_content l)) \<and>
   (personality_sources (fst (enrichLeadWithPersonalityAnalysis w l tr)) = personality_sources l
    \<or> (\<exists>li ws. personality_sources (fst (enrichLeadWithPersonalityAnalysis w l tr))
                  = Some (passSources (clock_now w) li ws))) \<and>
   (alreadyAnalysed l \<longrightarrow>
      personality_sources (fst (enrichLeadWithPersonalityAnalysis w l tr))
        = personality_sources l) \<and>
   (\<not> alreadyAnalysed l \<and> scraped_content l = Some cs \<and> cs \<noteq> [] \<longrightarrow>
      personality_sources (fst (enrichLeadWithPersonalityAnalysis w l tr)) = Some []) \<and>
   (\<not> alreadyAnalysed l \<and> (scraped_content l = None \<or> scraped_content l = Some [])
      \<and> searchPersonWithJina w (name l) (company l) tr = (sr, tr1) \<longrightarrow>
      (sr = [] \<or> scrapedContents w sr tr1 = [] \<longrightarrow>
         personality_sources (fst (enrichLeadWithPersonalityAnalysis w l tr))
           = personality_sources l) \<and>
      (sr \<noteq> [] \<and> scrapedContents w sr tr1 \<noteq> [] \<longrightarrow>
         personality_sources (fst (enrichLeadWithPersonalityAnalysis w l tr))
           = Some (passSources (clock_now w) (filter isLinkedIn sr)
                     (take 3 (filter isScrapeable sr))))) \<and>
   passSources t li ws =
     map (\<lambda>r. \<lparr>src_url = sr_url r, src_title = sr_title r, scraped_successfully = False,
               src_type = ''linkedin_reference'', src_timestamp = t\<rparr>) (take 1 li)
     @ map (\<lambda>r. \<lparr>src_url = sr_url r, src_title = sr_title r, scraped_successfully = True,
                 src_type = ''scraped_content'', src_timestamp = t\<rparr>) ws"
proof -
  let ?r = "fst (enrichLeadWithPersonalityAnalysis w l tr)"
  have grow_same: "\<exists>added. scraped_content l
                     = map_option (\<lambda>contents. contents @ added) (scraped_content l)"
    by (intro exI [of _ "[]"]) (simp add: option.map_ident)
  have grow: "\<exists>added. scraped_content (enrichedLead w li ws c a l)
                = map_option (\<lambda>contents. contents @ added) (scraped_content l)" for li ws c a
  proof (cases "scraped_content l = Some []")
    case True
    then show ?thesis by (intro exI [of _ c]) (simp add: enrichedLead_def)
  next
    case False
    with grow_same show ?thesis by (simp add: enrichedLead_def)
  qed
  consider "?r = l" | "?r = noResultsLead w l" | li ws where "?r = noContentLead w li ws l"
    | li ws c a where "?r = enrichedLead w li ws c a l"
    using enrich_shape [of w l tr] by blast
  then have kept:
    "search_results ?r = search_results l \<and> enrichment_sources ?r = enrichment_sources l \<and>
     (\<exists>added. scraped_content ?r = map_option (\<lambda>contents. contents @ added) (scraped_content l)) \<and>
     (personality_sources ?r = personality_sources l
      \<or> (\<exists>li ws. personality_sources ?r = Some (passSources (clock_now w) li ws)))"
  proof cases
    case 1
    with grow_same show ?thesis by simp
  next
    case 2
    with grow_same show ?thesis by (simp add: noResultsLead_def)
  next
    case 3
    with grow_same show ?thesis by (simp add: noContentLead_def)
  next
    case 4
    have "personality_sources (enrichedLead w li ws c a l) = Some (passSources (clock_now w) li ws)"
      by (simp add: enrichedLead_def)
    with 4 grow [of li ws c a] show ?thesis by (auto simp: enrichedLead_def)
  qed
  have skip: "alreadyAnalysed l \<longrightarrow> personality_sources ?r = personality_sources l"
    by (simp add: enrichLeadWithPersonalityAnalysis_def)
  have reuse: "\<not> alreadyAnalysed l \<and> scraped_content l = Some cs \<and> cs \<noteq> [] \<longrightarrow>
      personality_sources ?r = Some []"
    by (auto simp: enrich_reuses_content enrichedLead_def passSources_def)
  have search: "\<not> alreadyAnalysed l \<and> (scraped_content l = None \<or> scraped_content l = Some [])
      \<and> searchPersonWithJina w (name l) (company l) tr = (sr, tr1) \<longrightarrow>
      (sr = [] \<or> scrapedContents w sr tr1 = [] \<longrightarrow>
         personality_sources ?r = personality_sources l) \<and>
      (sr \<noteq> [] \<and> scrapedContents w sr tr1 \<noteq> [] \<longrightarrow>
         personality_sources ?r
           = Some (passSources (clock_now w) (filter isLinkedIn sr)
                     (take 3 (filter isScrapeable sr))))"
  proof (intro impI conjI)
    assume h: "\<not> alreadyAnalysed l \<and> (scraped_content l = None \<or> scraped_content l = Some [])
      \<and> searchPersonWithJina w (name l) (company l) tr = (sr, tr1)"
    then have a: "\<not> alreadyAnalysed l" and b: "scraped_content l = None \<or> scraped_content l = Some []"
      and c: "searchPersonWithJina w (name l) (company l) tr = (sr, tr1)" by simp_all
    note path = enrich_search_path [OF a b c]
    {
      assume "sr = [] \<or> scrapedContents w sr tr1 = []"
      then show "personality_sources ?r = personality_sources l"
      proof (cases "sr = []")
        case True
        with path(1) show ?thesis by (simp add: noResultsLead_def)
      next
        case False
        assume "sr = [] \<or> scrapedContents w sr tr1 = []"
        with False have "scrapedContents w sr tr1 = []" by simp
        with False path(2) show ?thesis by (simp add: noContentLead_def)
      qed
    }
    {
      assume "sr \<noteq> [] \<and> scrapedContents w sr tr1 \<noteq> []"
      with path(3) obtain a where
        "?r = enrichedLead w (filter isLinkedIn sr) (take 3 (filter isScrapeable sr))
                (scrapedContents w sr tr1) a l"
        by blast
      then show "personality_sources ?r
           = Some (passSources (clock_now w) (filter isLinkedIn sr)
                     (take 3 (filter isScrapeable sr)))"
        by (simp add: enrichedLead_def)
    }
  qed
  have shape: "passSources t li ws =
     map (\<lambda>r. \<lparr>src_url = sr_url r, src_title = sr_title r, scraped_successfully = False,
               src_type = ''linkedin_reference'', src_timestamp = t\<rparr>) (take 1 li)
     @ map (\<lambda>r. \<lparr>src_url = sr_url r, src_title = sr_title r, scraped_successfully = True,
                 src_type = ''scraped_content'', src_timestamp = t\<rparr>) ws"
    by (simp add: passSources_def linkedinReference_def scrapedSource_def fun_eq_iff)
  from kept skip reuse search shape show ?thesis by (intro conjI) (elim conjE, assumption)+
qed

theorem sources_by_pass_outcome_witness:
  "personality_sources retryJane = Some [oldSource] \<and>
   personality_sources (fst (enrichLeadWithPersonalityAnalysis lowQualityWorld retryJane []))
     = Some [] \<and>
   search_results (fst (enrichLeadWithPersonalityAnalysis lowQualityWorld retryJane [])) = None \<and>
   personality_sources retryLead = Some [oldSource] \<and>
   personality_sources (fst (enrichLeadWithPersonalityAnalysis lowQualityWorld retryLead []))
     = Some [oldSource] \<and>
   personality_sources (fst (enrichLeadWithPersonalityAnalysis unreadablePageWorld retryLead []))
     = Some [oldSource] \<and>
   personality_sources (fst (enrichLeadWithPersonalityAnalysis freshSearchWorld retryLead []))
     = Some [\<lparr> src_url = Str ''https://news.example.com/jane-doe'',
               src_title = Str ''Jane Doe - Head of Payments'',
               scraped_successfully = True, src_type = ''scraped_content'',
               src_timestamp = ''2025-01-01T00:00:00.000Z'' \<rparr>]"
proof -
  have jane: "\<not> alreadyAnalysed retryJane
      \<and> scraped_content retryJane = Some [''Jane Doe leads the payments programme at Acme.'']
      \<and> [''Jane Doe leads the payments programme at Acme.''] \<noteq> []"
    by (simp add: retryJane_def pendingJane_def emptyLead_def alreadyAnalysed_def propOf_def)
  have janeSources: "personality_sources retryJane = Some [oldSource]"
    by (simp add: retryJane_def)
  have janeResults: "search_results retryJane = None"
    by (simp add: retryJane_def pendingJane_def emptyLead_def)
  have lead: "\<not> alreadyAnalysed retryLead" "scraped_content retryLead = None"
    "name retryLead = Str ''Jane Doe''" "company retryLead = Str ''Acme''"
    "personality_sources retryLead = Some [oldSource]"
    by (simp_all add: retryLead_def emptyLead_def alreadyAnalysed_def propOf_def)
  have found: "formatResult w (Str ''Jane Doe'') (0, newsItem) = newsResult" for w
    by (simp add: formatResult_def newsItem_def newsResult_def firstTruthy_def)
  have valid: "validResult newsResult"
    by (simp add: validResult_def newsResult_def)
  have news: "\<not> isLinkedIn newsResult" "isScrapeable newsResult"
    by (simp_all add: isLinkedIn_def isScrapeable_def newsResult_def)
  have kind: "filter isLinkedIn [newsResult] = []"
    "filter isScrapeable [newsResult] = [newsResult]"
    by (simp_all add: news)
  define queries where "queries = map SearchCall (searchApproaches (Str ''Jane Doe'') (Str ''Acme''))"
  have noResults: "searchPersonWithJina lowQualityWorld (name retryLead) (company retryLead) []
      = ([], queries)"
    by (simp add: lead queries_def searchPersonWithJina_def searchApproaches_def
          lowQualityWorld_def)
  have unreadable: "searchPersonWithJina unreadablePageWorld (name retryLead) (company retryLead) []
      = ([newsResult], [SearchCall ''Jane Doe Acme''])"
    using found valid
    by (simp add: lead searchPersonWithJina_def searchApproaches_def unreadablePageWorld_def
          enumerate_eq_zip)
  have fresh: "searchPersonWithJina freshSearchWorld (name retryLead) (company retryLead) []
      = ([newsResult], [SearchCall ''Jane Doe Acme''])"
    using found valid
    by (simp add: lead searchPersonWithJina_def searchApproaches_def freshSearchWorld_def
          enumerate_eq_zip)
  have unread: "scrapedContents unreadablePageWorld [newsResult] [SearchCall ''Jane Doe Acme''] = []"
    by (simp add: scrapedContents_def news getWebsiteContent_def unreadablePageWorld_def
          substantial_def)
  have read: "scrapedContents freshSearchWorld [newsResult] [SearchCall ''Jane Doe Acme''] \<noteq> []"
    by (simp add: scrapedContents_def news getWebsiteContent_def freshSearchWorld_def
          substantial_def)
  note reuse = sources_by_pass_outcome
      [where w = lowQualityWorld and l = retryJane and tr = "[]"
         and cs = "[''Jane Doe leads the payments programme at Acme.'']"]
  note a = reuse [THEN conjunct2, THEN conjunct2, THEN conjunct2, THEN conjunct2,
                  THEN conjunct2, THEN conjunct1, THEN mp, OF jane]
  note b = reuse [THEN conjunct1]
  note search = sources_by_pass_outcome
      [THEN conjunct2, THEN conjunct2, THEN conjunct2, THEN conjunct2, THEN conjunct2,
       THEN conjunct2, THEN conjunct1, THEN mp]
  have h1: "\<not> alreadyAnalysed retryLead
      \<and> (scraped_content retryLead = None \<or> scraped_content retryLead = Some [])
      \<and> searchPersonWithJina lowQualityWorld (name retryLead) (company retryLead) []
          = ([], queries)"
    by (rule conjI [OF lead(1) conjI [OF disjI1 [OF lead(2)] noResults]])
  have h2: "\<not> alreadyAnalysed retryLead
      \<and> (scraped_content retryLead = None \<or> scraped_content retryLead = Some [])
      \<and> searchPersonWithJina unreadablePageWorld (name retryLead) (company retryLead) []
          = ([newsResult], [SearchCall ''Jane Doe Acme''])"
    by (rule conjI [OF lead(1) conjI [OF disjI1 [OF lead(2)] unreadable]])
  have h3: "\<not> alreadyAnalysed retryLead
      \<and> (scraped_content retryLead = None \<or> scraped_content retryLead = Some [])
      \<and> searchPersonWithJina freshSearchWorld (name retryLead) (company retryLead) []
          = ([newsResult], [SearchCall ''Jane Doe Acme''])"
    by (rule conjI [OF lead(1) conjI [OF disjI1 [OF lead(2)] fresh]])
  have e1: "[] = ([]::searchResult list) \<or> scrapedContents lowQualityWorld [] queries = []"
    by (rule disjI1) (rule refl)
  have e2: "[newsResult] = [] \<or> scrapedContents unreadablePageWorld [newsResult]
      [SearchCall ''Jane Doe Acme''] = []"
    using unread by (rule disjI2)
  have e3: "[newsResult] \<noteq> [] \<and> scrapedContents freshSearchWorld [newsResult]
      [SearchCall ''Jane Doe Acme''] \<noteq> []"
    using read by simp
  note c = search [OF h1, THEN conjunct1, THEN mp, OF e1]
  note d = search [OF h2, THEN conjunct1, THEN mp, OF e2]
  note e = search [OF h3, THEN conjunct2, THEN mp, OF e3]
  have shape: "passSources (clock_now freshSearchWorld) (filter isLinkedIn [newsResult])
        (take 3 (filter isScrapeable [newsResult]))
      = [\<lparr> src_url = Str ''https://news.example.com/jane-doe'',
               src_title = Str ''Jane Doe - Head of Payments'',
               scraped_successfully = True, src_type = ''scraped_content'',
               src_timestamp = ''2025-01-01T00:00:00.000Z'' \<rparr>]"
    by (simp only: kind) (simp add: passSources_def scrapedSource_def newsResult_def freshSearchWorld_def)
  show ?thesis
    using a b c d e janeSources janeResults lead(5) by (simp only: shape simp_thms)
qed

text \<open>
  Append-only fails for \<open>personality_sources\<close>: a lead whose earlier analysis failed is
  enriched again, the search finds another page, and the source recorded by the earlier
  pass is gone.
\<close>

theorem sources_append_only_counterexample:
  "personality_sources retryLead = Some [oldSource] \<and>
   personality_sources (fst (enrichLeadWithPersonalityAnalysis freshSearchWorld retryLead []))
     = Some [scrapedSource ''2025-01-01T00:00:00.000Z'' newsResult] \<and>
   oldSource \<noteq> scrapedSource ''2025-01-01T00:00:00.000Z'' newsResult"
proof -
  have "\<not> alreadyAnalysed retryLead" and "scraped_content retryLead = None"
    and "name retryLead = Str ''Jane Doe''" and "company retryLead = Str ''Acme''"
    by (simp_all add: alreadyAnalysed_def retryLead_def emptyLead_def propOf_def)
  then obtain c where
    "fst (enrichLeadWithPersonalityAnalysis freshSearchWorld retryLead [])
       = enrichedLead freshSearchWorld [] [newsResult] [c]
           (structuredAnalysis (JObj [(''intelligence_quality'', JStr ''low'')])
              ''2025-01-01T00:00:00.000Z'' 1) retryLead"
    using fresh_search_pass by blast
  then have "personality_sources (fst (enrichLeadWithPersonalityAnalysis freshSearchWorld retryLead []))
          = Some [scrapedSource ''2025-01-01T00:00:00.000Z'' newsResult]"
    by (simp add: enrichedLead_def passSources_def freshSearchWorld_def)
  moreover have "personality_sources retryLead = Some [oldSource]"
    by (simp add: retryLead_def)
  moreover have "oldSource \<noteq> scrapedSource ''2025-01-01T00:00:00.000Z'' newsResult"
    by (simp add: oldSource_def scrapedSource_def newsResult_def)
  ultimately show ?thesis by simp
qed

end
